theory Spec2Isabelle
  imports Main
begin

section \<open>JavaScript values\<close>

text \<open>
  The two handlers work on JSON data: the request body, the reply of the Telegram Bot
  API, the metadata of a KV record and its JSON-encoded value. A value is one of the
  JavaScript values such data can hold. Modelling boundaries:
  \<^item> a number is an integer (\<open>JNum\<close>), an infinity (\<open>JInf True\<close> is
    \<open>Infinity\<close>, \<open>JInf False\<close> is \<open>-Infinity\<close>) or the not-a-number value
    (\<open>JNaN\<close>); fractions are outside the model;
  \<^item> a string is a list of 8-bit code units: the Latin-1 range of JavaScript's
    UTF-16 code units;
  \<^item> an object is the association list of its own properties; a lookup takes the
    first entry of a name.
\<close>

datatype jsval =
    JUndef
  | JNull
  | JBool bool
  | JNum int
  | JInf bool
  | JNaN
  | JStr string
  | JArr "jsval list"
  | JObj "(string \<times> jsval) list"

text \<open>
  A thrown value. Only its \<open>message\<close> is ever read (\<open>e.message\<close>). The wording
  of the engine's own TypeErrors is V8's, shortened; no theorem depends on the wording.
\<close>

datatype exn = TypeError string | Rejection string

fun message :: "exn \<Rightarrow> string" where
  "message (TypeError m) = m"
| "message (Rejection m) = m"

text \<open>ToBoolean: what \<open>!x\<close>, \<open>x || y\<close>, \<open>x && y\<close> and \<open>x ? a : b\<close> test.\<close>

fun truthy :: "jsval \<Rightarrow> bool" where
  "truthy JUndef = False"
| "truthy JNull = False"
| "truthy (JBool b) = b"
| "truthy (JNum n) = (n \<noteq> 0)"
| "truthy (JInf b) = True"
| "truthy JNaN = False"
| "truthy (JStr s) = (s \<noteq> [])"
| "truthy (JArr xs) = True"
| "truthy (JObj ps) = True"

text \<open>\<open>x == null\<close>: true of \<open>null\<close> and \<open>undefined\<close> only.\<close>

fun nullish :: "jsval \<Rightarrow> bool" where
  "nullish JUndef = True"
| "nullish JNull = True"
| "nullish v = False"

text \<open>\<open>a || b\<close> and \<open>a ?? b\<close> on values already evaluated.\<close>

definition js_or :: "jsval \<Rightarrow> jsval \<Rightarrow> jsval" where
  "js_or a b = (if truthy a then a else b)"

definition js_coalesce :: "jsval \<Rightarrow> jsval \<Rightarrow> jsval" where
  "js_coalesce a b = (if nullish a then b else a)"

text \<open>
  \<open>v.k\<close> for the property names the handlers read (\<open>url\<close>, \<open>title\<close>, \<open>ok\<close>,
  \<open>result\<close>, \<open>description\<close>, \<open>photo\<close>, \<open>file_id\<close>, \<open>file_size\<close>,
  \<open>message_id\<close>, \<open>list\<close>, \<open>fileName\<close>, \<open>TimeStamp\<close>, \<open>uploadTime\<close>,
  \<open>storageType\<close>): reading a property of \<open>null\<close> or \<open>undefined\<close> throws a
  TypeError; no built-in prototype defines one of these names, so on a boolean, a number,
  a string or an array the read gives \<open>undefined\<close>.
\<close>

fun get_prop :: "jsval \<Rightarrow> string \<Rightarrow> exn + jsval" where
  "get_prop JUndef k = Inl (TypeError ''Cannot read properties of undefined'')"
| "get_prop JNull k = Inl (TypeError ''Cannot read properties of null'')"
| "get_prop (JObj ps) k = Inr (case map_of ps k of None \<Rightarrow> JUndef | Some v \<Rightarrow> v)"
| "get_prop v k = Inr JUndef"

subsection \<open>Strings\<close>

definition code_unit :: "char \<Rightarrow> nat" where
  "code_unit c = of_char c"

text \<open>White space as \<open>String.prototype.trim\<close> and \<open>parseInt\<close> see it, in the Latin-1 range.\<close>

definition is_space :: "char \<Rightarrow> bool" where
  "is_space c = (code_unit c \<in> {9, 10, 11, 12, 13, 32, 160})"

definition js_trim :: "string \<Rightarrow> string" where
  "js_trim s = rev (dropWhile is_space (rev (dropWhile is_space s)))"

definition is_digit :: "char \<Rightarrow> bool" where
  "is_digit c = (48 \<le> code_unit c \<and> code_unit c \<le> 57)"

definition is_alnum :: "char \<Rightarrow> bool" where
  "is_alnum c = (is_digit c \<or> (65 \<le> code_unit c \<and> code_unit c \<le> 90)
                  \<or> (97 \<le> code_unit c \<and> code_unit c \<le> 122))"

definition to_lower :: "char \<Rightarrow> char" where
  "to_lower c = (if 65 \<le> code_unit c \<and> code_unit c \<le> 90 then char_of (code_unit c + 32) else c)"

definition digit_char :: "nat \<Rightarrow> char" where
  "digit_char d = ''0123456789ABCDEF'' ! (d mod 16)"

fun digits :: "nat \<Rightarrow> string" where
  "digits n = (if n < 10 then [digit_char n] else digits (n div 10) @ [digit_char (n mod 10)])"

fun join_with :: "string \<Rightarrow> string list \<Rightarrow> string" where
  "join_with sep [] = []"
| "join_with sep [s] = s"
| "join_with sep (s # t # ts) = s @ sep @ join_with sep (t # ts)"

text \<open>Decimal value of a string of digits, most significant first.\<close>

definition digits_value :: "string \<Rightarrow> int" where
  "digits_value ds = foldl (\<lambda>acc c. 10 * acc + (int (code_unit c) - 48)) 0 ds"

subsection \<open>The platform\<close>

text \<open>
  What the runtime provides and this development does not re-implement:
  \<^item> \<open>json_parse\<close>: \<open>JSON.parse\<close>, \<open>None\<close> when it throws a SyntaxError;
  \<^item> \<open>url_pathname\<close>: \<open>new URL(s).pathname\<close>, \<open>None\<close> when the constructor throws;
  \<^item> \<open>string_vs_number\<close>: the order of the number a string converts to (ToNumber)
    against a number, \<open>None\<close> when the string converts to not-a-number;
  \<^item> \<open>large_number_text\<close>: the text \<open>Number.prototype.toString\<close> gives an
    integer above 2^53 in magnitude: the shortest digits that identify the double, padded
    with zeros, and in exponent form (\<open>1e+21\<close>) from 10^21;
  \<^item> \<open>integer_number\<close>: the Number for a mathematical integer of magnitude above 2^53,
    which is the nearest double or an infinity.
  Every theorem holds for every platform.
\<close>

datatype order3 = Less | Equal | Greater

datatype xnum = Finite int | PlusInfinity | MinusInfinity

record platform =
  json_parse :: "string \<Rightarrow> jsval option"
  url_pathname :: "string \<Rightarrow> string option"
  string_vs_number :: "string \<Rightarrow> xnum \<Rightarrow> order3 option"
  large_number_text :: "int \<Rightarrow> string"
  integer_number :: "int \<Rightarrow> jsval"

subsection \<open>Conversions\<close>

text \<open>
  ToString, as \<open>String(v)\<close>, a template literal and \<open>parseInt\<close> apply it. An integer
  up to 2^53 in magnitude prints its decimal digits. An array joins the texts of its
  elements with commas, from left to right, \<open>null\<close> and \<open>undefined\<close> elements as
  empty strings. An object parsed from JSON prints as \<open>[object Object]\<close> through
  \<open>Object.prototype.toString\<close>, unless it has an own property \<open>toString\<close>: that
  property is not callable, \<open>Object.prototype.valueOf\<close> returns the object itself, and
  the conversion throws a TypeError.
\<close>

fun js_String :: "platform \<Rightarrow> jsval \<Rightarrow> exn + string"
  and js_String_all :: "platform \<Rightarrow> jsval list \<Rightarrow> exn + string list" where
  "js_String P JUndef = Inr ''undefined''"
| "js_String P JNull = Inr ''null''"
| "js_String P (JBool b) = Inr (if b then ''true'' else ''false'')"
| "js_String P (JNum n) =
     Inr (if 9007199254740992 < \<bar>n\<bar> then large_number_text P n
          else if n < 0 then ''-'' @ digits (nat (- n))
          else digits (nat n))"
| "js_String P (JInf b) = Inr (if b then ''Infinity'' else ''-Infinity'')"
| "js_String P JNaN = Inr ''NaN''"
| "js_String P (JStr s) = Inr s"
| "js_String P (JArr xs) =
     (case js_String_all P xs of Inl e \<Rightarrow> Inl e | Inr ts \<Rightarrow> Inr (join_with '','' ts))"
| "js_String P (JObj ps) =
     (if map_of ps ''toString'' \<noteq> None
      then Inl (TypeError ''Cannot convert object to primitive value'')
      else Inr ''[object Object]'')"
| "js_String_all P [] = Inr []"
| "js_String_all P (x # xs) =
     (case (if nullish x then Inr [] else js_String P x) of
        Inl e \<Rightarrow> Inl e
      | Inr t \<Rightarrow> (case js_String_all P xs of Inl e \<Rightarrow> Inl e | Inr ts \<Rightarrow> Inr (t # ts)))"

text \<open>
  \<open>parseInt(v, 10)\<close>: ToString (which may throw), leading white space skipped, an
  optional sign, then the longest run of decimal digits; not-a-number when there is no
  digit. The integer read is the result up to 2^53 in magnitude, where every integer is a
  double; beyond, the result is the platform's Number for it.
\<close>

definition parseInt10 :: "platform \<Rightarrow> jsval \<Rightarrow> exn + jsval" where
  "parseInt10 P v =
     (case js_String P v of
        Inl e \<Rightarrow> Inl e
      | Inr inputString \<Rightarrow>
          Inr (let s = dropWhile is_space inputString;
                   neg = (s \<noteq> [] \<and> hd s = CHR ''-'');
                   body = (if s \<noteq> [] \<and> (hd s = CHR ''-'' \<or> hd s = CHR ''+'') then tl s else s);
                   ds = takeWhile is_digit body;
                   m = (if neg then - digits_value ds else digits_value ds)
               in if ds = [] then JNaN
                  else if \<bar>m\<bar> \<le> 9007199254740992 then JNum m
                  else integer_number P m))"

subsection \<open>The relational comparison\<close>

text \<open>Strings compare by code units, lexicographically.\<close>

fun str_less :: "string \<Rightarrow> string \<Rightarrow> bool" where
  "str_less [] [] = False"
| "str_less [] (y # ys) = True"
| "str_less (x # xs) [] = False"
| "str_less (x # xs) (y # ys) =
     (if code_unit x < code_unit y then True
      else if code_unit y < code_unit x then False
      else str_less xs ys)"

fun xnum_less :: "xnum \<Rightarrow> xnum \<Rightarrow> bool" where
  "xnum_less (Finite a) (Finite b) = (a < b)"
| "xnum_less (Finite a) PlusInfinity = True"
| "xnum_less (Finite a) MinusInfinity = False"
| "xnum_less PlusInfinity b = False"
| "xnum_less MinusInfinity MinusInfinity = False"
| "xnum_less MinusInfinity b = True"

text \<open>
  The operands of a relational comparison: ToPrimitive with hint number, then a string
  stays a string and any other primitive converts to a number. An array converts through
  its text; an object with an own property \<open>toString\<close> throws, as in ToString.
\<close>

datatype prim = PStr string | PNum xnum | PNaN

fun to_prim :: "platform \<Rightarrow> jsval \<Rightarrow> exn + prim" where
  "to_prim P JUndef = Inr PNaN"
| "to_prim P JNull = Inr (PNum (Finite 0))"
| "to_prim P (JBool b) = Inr (PNum (Finite (if b then 1 else 0)))"
| "to_prim P (JNum n) = Inr (PNum (Finite n))"
| "to_prim P (JInf b) = Inr (PNum (if b then PlusInfinity else MinusInfinity))"
| "to_prim P JNaN = Inr PNaN"
| "to_prim P (JStr s) = Inr (PStr s)"
| "to_prim P (JArr xs) =
     (case js_String P (JArr xs) of Inl e \<Rightarrow> Inl e | Inr t \<Rightarrow> Inr (PStr t))"
| "to_prim P (JObj ps) =
     (case js_String P (JObj ps) of Inl e \<Rightarrow> Inl e | Inr t \<Rightarrow> Inr (PStr t))"

text \<open>Two strings compare as strings; otherwise both sides are numbers, and a
  comparison with not-a-number is false.\<close>

fun prim_gt :: "platform \<Rightarrow> prim \<Rightarrow> prim \<Rightarrow> bool" where
  "prim_gt P (PStr x) (PStr y) = str_less y x"
| "prim_gt P (PNum x) (PNum y) = xnum_less y x"
| "prim_gt P (PStr x) (PNum y) = (string_vs_number P x y = Some Greater)"
| "prim_gt P (PNum x) (PStr y) = (string_vs_number P y x = Some Less)"
| "prim_gt P PNaN b = False"
| "prim_gt P a PNaN = False"

text \<open>\<open>a > b\<close>: the left operand converts first, then the right one.\<close>

definition js_gt :: "platform \<Rightarrow> jsval \<Rightarrow> jsval \<Rightarrow> exn + bool" where
  "js_gt P a b =
     (case to_prim P a of
        Inl e \<Rightarrow> Inl e
      | Inr pa \<Rightarrow> (case to_prim P b of Inl e \<Rightarrow> Inl e | Inr pb \<Rightarrow> Inr (prim_gt P pa pb)))"

section \<open>Responses\<close>

text \<open>
  A \<open>Response\<close>: its status, its headers and the value handed to
  \<open>JSON.stringify\<close> for its body (\<open>None\<close> for the \<open>null\<close> body of a preflight
  reply). Both files define \<open>jsonResponse\<close> and \<open>errResponse\<close> the same way, over
  their own \<open>CORS_HEADERS\<close>, which is a parameter here.
\<close>

record response =
  status :: nat
  headers :: "(string \<times> string) list"
  body :: "jsval option"

definition jsonResponse :: "(string \<times> string) list \<Rightarrow> jsval \<Rightarrow> nat \<Rightarrow> response" where
  "jsonResponse cors b st =
     \<lparr>status = st, headers = (''Content-Type'', ''application/json'') # cors, body = Some b\<rparr>"

definition errResponse :: "(string \<times> string) list \<Rightarrow> string \<Rightarrow> nat \<Rightarrow> response" where
  "errResponse cors msg st = jsonResponse cors (JObj [(''error'', JStr msg)]) st"

text \<open>
  What a handler reads of the incoming request: \<open>url.searchParams.get("pwd")\<close> and
  \<open>get("cursor")\<close> (\<open>None\<close> for \<open>null\<close>), \<open>headers.get("Authorization")\<close>,
  \<open>url.origin\<close>, and the outcome of \<open>request.json()\<close> (\<open>None\<close> when it throws).
\<close>

record request =
  pwd_param :: "string option"
  cursor_param :: "string option"
  authorization :: "string option"
  origin :: string
  json_body :: "jsval option"

section \<open>The ingestion handler\<close>

definition UPLOAD_CORS_HEADERS :: "(string \<times> string) list" where
  "UPLOAD_CORS_HEADERS =
     [(''Access-Control-Allow-Origin'', ''*''),
      (''Access-Control-Allow-Methods'', ''POST, OPTIONS''),
      (''Access-Control-Allow-Headers'', ''Content-Type, Authorization'')]"

text \<open>
  The bindings of \<open>env\<close> the ingestion handler reads. \<open>env.img_url\<close>, the KV
  namespace, is part of the state below, since \<open>put\<close> changes it.
\<close>

record upload_env =
  BASIC_PASS :: "string option"
  TG_Bot_Token :: "string option"
  TG_Chat_ID :: "string option"

text \<open>\<open>getPassword\<close>: the \<open>pwd\<close> parameter when it is not empty, else the bearer token.\<close>

definition getPassword :: "request \<Rightarrow> string option" where
  "getPassword req =
     (if pwd_param req \<noteq> None \<and> pwd_param req \<noteq> Some [] then pwd_param req
      else case authorization req of
        Some auth \<Rightarrow>
          if auth \<noteq> [] \<and> take 7 auth = ''Bearer '' then Some (js_trim (drop 7 auth))
          else None
      | None \<Rightarrow> None)"

definition checkAuth :: "request \<Rightarrow> upload_env \<Rightarrow> bool" where
  "checkAuth req env =
     (if BASIC_PASS env = None \<or> BASIC_PASS env = Some [] then True
      else getPassword req = BASIC_PASS env)"

text \<open>
  \<open>getExtensionFromUrl\<close>. The regular expression \<open>/\.([a-z0-9]+)$/i\<close> matches when the
  longest alphanumeric suffix of the path is not empty and follows a dot; its group is
  that suffix.
\<close>

definition ext_match :: "string \<Rightarrow> string option" where
  "ext_match path =
     (let suffix = rev (takeWhile is_alnum (rev path));
          before = rev (dropWhile is_alnum (rev path))
      in if suffix \<noteq> [] \<and> before \<noteq> [] \<and> last before = CHR ''.'' then Some suffix else None)"

definition getExtensionFromUrl :: "platform \<Rightarrow> string \<Rightarrow> string" where
  "getExtensionFromUrl P urlStr =
     (case url_pathname P urlStr of
        None \<Rightarrow> ''jpg''
      | Some path \<Rightarrow>
          (case ext_match path of
             Some m1 \<Rightarrow> map to_lower m1
           | None \<Rightarrow> ''jpg''))"

text \<open>
  \<open>Array.prototype.reduce\<close> without an initial value: the first element starts the
  accumulator; an empty array throws. The callback may throw.
\<close>

fun reduce_from :: "(jsval \<Rightarrow> jsval \<Rightarrow> exn + jsval) \<Rightarrow> jsval \<Rightarrow> jsval list \<Rightarrow> exn + jsval" where
  "reduce_from f acc [] = Inr acc"
| "reduce_from f acc (x # xs) =
     (case f acc x of Inl e \<Rightarrow> Inl e | Inr acc' \<Rightarrow> reduce_from f acc' xs)"

definition js_reduce :: "(jsval \<Rightarrow> jsval \<Rightarrow> exn + jsval) \<Rightarrow> jsval list \<Rightarrow> exn + jsval" where
  "js_reduce f xs =
     (case xs of
        [] \<Rightarrow> Inl (TypeError ''Reduce of empty array with no initial value'')
      | x # rest \<Rightarrow> reduce_from f x rest)"

text \<open>
  \<open>getFileIdFromPhoto\<close>. The callback is
  \<open>(prev, cur) => (prev && (prev.file_size || 0) > (cur.file_size || 0)) ? prev : cur\<close>:
  \<open>cur.file_size\<close> is read only when \<open>prev\<close> is truthy, and the comparison may
  throw.
\<close>

definition getFileIdFromPhoto :: "platform \<Rightarrow> jsval \<Rightarrow> exn + jsval" where
  "getFileIdFromPhoto P result =
     (if \<not> truthy result then Inr JNull
      else case get_prop result ''photo'' of
        Inl e \<Rightarrow> Inl e
      | Inr (JArr photo) \<Rightarrow>
          if photo = [] then Inr JNull
          else (case js_reduce (\<lambda>prev cur.
                    if \<not> truthy prev then Inr cur
                    else case get_prop prev ''file_size'' of
                      Inl e \<Rightarrow> Inl e
                    | Inr ps \<Rightarrow>
                        (case get_prop cur ''file_size'' of
                           Inl e \<Rightarrow> Inl e
                         | Inr cs \<Rightarrow>
                             (case js_gt P (js_or ps (JNum 0)) (js_or cs (JNum 0)) of
                                Inl e \<Rightarrow> Inl e
                              | Inr gt \<Rightarrow> Inr (if gt then prev else cur)))) photo of
                  Inl e \<Rightarrow> Inl e
                | Inr largest \<Rightarrow> get_prop largest ''file_id'')
      | Inr other \<Rightarrow> Inr JNull)"

text \<open>\<open>getFileSizeFromPhoto\<close>: the source repeats the guard and the reduction.\<close>

definition getFileSizeFromPhoto :: "platform \<Rightarrow> jsval \<Rightarrow> exn + jsval" where
  "getFileSizeFromPhoto P result =
     (if \<not> truthy result then Inr (JNum 0)
      else case get_prop result ''photo'' of
        Inl e \<Rightarrow> Inl e
      | Inr (JArr photo) \<Rightarrow>
          if photo = [] then Inr (JNum 0)
          else (case js_reduce (\<lambda>prev cur.
                    if \<not> truthy prev then Inr cur
                    else case get_prop prev ''file_size'' of
                      Inl e \<Rightarrow> Inl e
                    | Inr ps \<Rightarrow>
                        (case get_prop cur ''file_size'' of
                           Inl e \<Rightarrow> Inl e
                         | Inr cs \<Rightarrow>
                             (case js_gt P (js_or ps (JNum 0)) (js_or cs (JNum 0)) of
                                Inl e \<Rightarrow> Inl e
                              | Inr gt \<Rightarrow> Inr (if gt then prev else cur)))) photo of
                  Inl e \<Rightarrow> Inl e
                | Inr largest \<Rightarrow>
                    (case get_prop largest ''file_size'' of
                       Inl e \<Rightarrow> Inl e
                     | Inr fs \<Rightarrow> Inr (js_or fs (JNum 0))))
      | Inr other \<Rightarrow> Inr (JNum 0))"

text \<open>\<open>randomFileName\<close>; \<open>rid\<close> is \<open>Math.random().toString(36).slice(2, 10)\<close>.\<close>

definition randomFileName :: "string \<Rightarrow> string \<Rightarrow> string" where
  "randomFileName rid ext = ''image_'' @ rid @ ''.'' @ ext"

subsection \<open>State and outside world of one ingestion\<close>

text \<open>
  The KV namespace \<open>env.img_url\<close> maps a key to its value text and its metadata;
  \<open>None\<close> when the binding is not configured. \<open>sent\<close> is the log of the calls made
  to the Bot API, oldest first.
\<close>

record kv_entry =
  entry_text :: string
  entry_metadata :: jsval

type_synonym kv_store = "string \<Rightarrow> kv_entry option"

record tg_request =
  tg_api_url :: string
  tg_chat_id :: string
  tg_photo :: string
  tg_caption :: string

record sys =
  img_url :: "kv_store option"
  sent :: "tg_request list"

text \<open>
  What one call of \<open>processOne\<close> meets outside: the outcome of \<open>fetch\<close> followed by
  \<open>res.json()\<close>, the clock, the random name, and whether \<open>put\<close> rejects (a rejected
  \<open>put\<close> is taken to leave the namespace as it was).
\<close>

datatype fetch_outcome =
    FetchRejects exn
  | JsonRejects
  | JsonData jsval

record outside =
  fetch_outcome :: fetch_outcome
  date_now :: int
  random_id :: string
  put_rejects :: "exn option"

definition env_String :: "string option \<Rightarrow> string" where
  "env_String v = (case v of None \<Rightarrow> ''undefined'' | Some s \<Rightarrow> s)"

text \<open>The result object of a failed item: \<open>{ url: imageUrl, success: false, error }\<close>.\<close>

definition failure :: "jsval \<Rightarrow> jsval \<Rightarrow> jsval" where
  "failure imageUrl err = JObj [(''url'', imageUrl), (''success'', JBool False), (''error'', err)]"

text \<open>
  \<open>processOne\<close>. Destructuring \<open>item\<close> reads \<open>url\<close> and \<open>title\<close> and throws on
  \<open>null\<close> and \<open>undefined\<close>. \<open>String(title)\<close> for the caption may throw, before
  anything is sent; the file name takes the same text again (\<open>titleText\<close>). The call
  to the Bot API is logged in \<open>sent\<close> before its outcome is looked at.
  \<open>data.result\<close> and \<open>data.description\<close> are read next to \<open>data.ok\<close>: once
  \<open>data.ok\<close> has been read without a throw, these reads cannot throw either, so
  reading them early changes nothing. The key is a template literal, whose ToString of
  \<open>fileId\<close> may throw.
\<close>

definition processOne ::
  "platform \<Rightarrow> jsval \<Rightarrow> upload_env \<Rightarrow> string \<Rightarrow> outside \<Rightarrow> sys \<Rightarrow> (exn + jsval) \<times> sys" where
  "processOne P item env baseUrl w s =
     (case get_prop item ''url'' of
        Inl e \<Rightarrow> (Inl e, s)
      | Inr imageUrl \<Rightarrow>
     (case get_prop item ''title'' of
        Inl e \<Rightarrow> (Inl e, s)
      | Inr title \<Rightarrow>
     (case imageUrl of
        JStr u \<Rightarrow>
          if u = [] then (Inr (failure imageUrl (JStr ''missing or invalid url'')), s)
          else
            (case (if \<not> nullish title then js_String P title else Inr []) of
               Inl e \<Rightarrow> (Inl e, s)
             | Inr titleText \<Rightarrow>
            let apiUrl = ''https://api.telegram.org/bot'' @ env_String (TG_Bot_Token env) @ ''/sendPhoto'';
                s1 = s\<lparr>sent := sent s @
                       [\<lparr>tg_api_url = apiUrl,
                         tg_chat_id = env_String (TG_Chat_ID env),
                         tg_photo = js_trim u,
                         tg_caption = take 1024 titleText\<rparr>]\<rparr>
            in
            (case fetch_outcome w of
               FetchRejects e \<Rightarrow>
                 (Inr (failure imageUrl (js_or (JStr (message e)) (JStr ''network error''))), s1)
             | JsonRejects \<Rightarrow>
                 (Inr (failure imageUrl (JStr ''invalid response from Telegram'')), s1)
             | JsonData data \<Rightarrow>
            (case get_prop data ''ok'' of
               Inl e \<Rightarrow> (Inl e, s1)
             | Inr ok \<Rightarrow>
            (case get_prop data ''result'' of
               Inl e \<Rightarrow> (Inl e, s1)
             | Inr result \<Rightarrow>
            (case get_prop data ''description'' of
               Inl e \<Rightarrow> (Inl e, s1)
             | Inr description \<Rightarrow>
                 if \<not> truthy ok \<or> \<not> truthy result
                 then (Inr (failure imageUrl (js_or description (JStr ''Telegram API error''))), s1)
                 else
                   (case getFileIdFromPhoto P result of
                      Inl e \<Rightarrow> (Inl e, s1)
                    | Inr fileId \<Rightarrow>
                        if \<not> truthy fileId
                        then (Inr (failure imageUrl (JStr ''no file_id in response'')), s1)
                        else
                          (case js_String P fileId of
                             Inl e \<Rightarrow> (Inl e, s1)
                           | Inr fileIdText \<Rightarrow>
                          let ext = getExtensionFromUrl P u;
                              kvKey = fileIdText @ ''.'' @ ext;
                              fileName =
                                (if \<not> nullish title \<and> js_trim titleText \<noteq> []
                                 then js_trim titleText
                                 else randomFileName (random_id w) ext)
                          in
                          (case getFileSizeFromPhoto P result of
                             Inl e \<Rightarrow> (Inl e, s1)
                           | Inr fileSize \<Rightarrow>
                          (case get_prop result ''message_id'' of
                             Inl e \<Rightarrow> (Inl e, s1)
                           | Inr messageId \<Rightarrow>
                               let metadata = JObj
                                     [(''TimeStamp'', JNum (date_now w)),
                                      (''ListType'', JStr ''None''),
                                      (''Label'', JStr ''None''),
                                      (''liked'', JBool False),
                                      (''fileName'', JStr fileName),
                                      (''fileSize'', fileSize),
                                      (''storageType'', JStr ''telegram''),
                                      (''telegramMessageId'', messageId)];
                                   success = JObj
                                     [(''url'', imageUrl),
                                      (''success'', JBool True),
                                      (''src'', JStr (baseUrl @ ''/file/'' @ kvKey)),
                                      (''fileName'', JStr fileName)]
                               in
                               (case img_url s1 of
                                  None \<Rightarrow> (Inr success, s1)
                                | Some kv \<Rightarrow>
                                    (case put_rejects w of
                                       Some e \<Rightarrow> (Inl e, s1)
                                     | None \<Rightarrow>
                                         (Inr success,
                                          s1\<lparr>img_url := Some (kv(kvKey \<mapsto>
                                                \<lparr>entry_text = [], entry_metadata = metadata\<rparr>))\<rparr>))))))))))))
      | other \<Rightarrow> (Inr (failure imageUrl (JStr ''missing or invalid url'')), s))))"

text \<open>
  The loop of \<open>onRequestPost\<close>: items in order, each with the outside world of its
  own call (\<open>ws i\<close> for the item at index \<open>i\<close>). Nothing catches what
  \<open>processOne\<close> throws.
\<close>

fun process_list ::
  "platform \<Rightarrow> jsval list \<Rightarrow> upload_env \<Rightarrow> string \<Rightarrow> (nat \<Rightarrow> outside) \<Rightarrow> nat \<Rightarrow> jsval list \<Rightarrow> sys
     \<Rightarrow> (exn + jsval list) \<times> sys" where
  "process_list P [] env baseUrl ws i results s = (Inr results, s)"
| "process_list P (item # rest) env baseUrl ws i results s =
     (case processOne P item env baseUrl (ws i) s of
        (Inl e, s') \<Rightarrow> (Inl e, s')
      | (Inr one, s') \<Rightarrow> process_list P rest env baseUrl ws (Suc i) (results @ [one]) s')"

definition onRequestPost ::
  "platform \<Rightarrow> request \<Rightarrow> upload_env \<Rightarrow> (nat \<Rightarrow> outside) \<Rightarrow> sys \<Rightarrow> (exn + response) \<times> sys" where
  "onRequestPost P req env ws s =
     (if \<not> checkAuth req env then (Inr (errResponse UPLOAD_CORS_HEADERS ''Unauthorized'' 401), s)
      else if TG_Bot_Token env = None \<or> TG_Bot_Token env = Some []
              \<or> TG_Chat_ID env = None \<or> TG_Chat_ID env = Some []
      then (Inr (errResponse UPLOAD_CORS_HEADERS ''TG_Bot_Token or TG_Chat_ID not configured'' 500), s)
      else case json_body req of
        None \<Rightarrow> (Inr (errResponse UPLOAD_CORS_HEADERS ''Invalid JSON body'' 400), s)
      | Some b \<Rightarrow>
          (case (if nullish b then Inr JUndef else get_prop b ''list'') of
             Inl e \<Rightarrow> (Inl e, s)
           | Inr (JArr items) \<Rightarrow>
               if items = []
               then (Inr (errResponse UPLOAD_CORS_HEADERS
                       ''body must be { list: [ { url, title? } ] } with at least one item'' 400), s)
               else (case process_list P items env (origin req) ws 0 [] s of
                       (Inl e, s') \<Rightarrow> (Inl e, s')
                     | (Inr results, s') \<Rightarrow>
                         (Inr (jsonResponse UPLOAD_CORS_HEADERS (JObj [(''results'', JArr results)]) 200), s'))
           | Inr other \<Rightarrow>
               (Inr (errResponse UPLOAD_CORS_HEADERS
                  ''body must be { list: [ { url, title? } ] } with at least one item'' 400), s)))"

section \<open>The listing handler\<close>

definition LIST_CORS_HEADERS :: "(string \<times> string) list" where
  "LIST_CORS_HEADERS =
     [(''Access-Control-Allow-Origin'', ''*''),
      (''Access-Control-Allow-Methods'', ''GET, OPTIONS''),
      (''Access-Control-Allow-Headers'', ''Content-Type'')]"

definition LIST_PAGE_SIZE :: nat where
  "LIST_PAGE_SIZE = 1000"

definition BATCH_SIZE :: nat where
  "BATCH_SIZE = 50"

text \<open>
  The KV namespace as the listing handler uses it. \<open>kv_list limit cursor\<close> is
  \<open>kv.list({ limit, cursor })\<close>: the names of the keys of one page (\<open>k.name\<close> for each
  \<open>k\<close> of \<open>result.keys\<close>), \<open>list_complete\<close>, and the cursor of the next page
  (\<open>None\<close> for \<open>undefined\<close>). \<open>getWithMetadata name\<close> is
  \<open>kv.getWithMetadata(name, { type: "text" })\<close>: \<open>None\<close> for a \<open>null\<close> result,
  else the value text (\<open>None\<close> for \<open>null\<close>) and the metadata. Either call may reject.
\<close>

record list_result =
  keys :: "string list"
  list_complete :: bool
  cursor :: "string option"

record kv_read =
  read_text :: "string option"
  read_metadata :: jsval

record kv_namespace =
  kv_list :: "nat \<Rightarrow> string option \<Rightarrow> exn + list_result"
  getWithMetadata :: "string \<Rightarrow> exn + kv_read option"

text \<open>The bindings of \<open>env\<close> the listing handler reads: \<open>env.BASIC_PASS\<close> and
  \<open>env.img_url\<close> (\<open>None\<close> when not configured).\<close>

record list_env =
  LIST_BASIC_PASS :: "string option"
  list_img_url :: "kv_namespace option"

text \<open>Truthiness of a cursor: a string that is not empty.\<close>

definition cursor_truthy :: "string option \<Rightarrow> bool" where
  "cursor_truthy c = (case c of None \<Rightarrow> False | Some t \<Rightarrow> t \<noteq> [])"

text \<open>
  \<open>listAllKeys\<close>. One round of the \<open>do ... while (nextCursor)\<close> loop is one unfolding
  of \<open>listAllKeys_loop\<close>; a namespace that never stops handing out cursors keeps the
  loop running, which is the value \<open>None\<close>.
\<close>

partial_function (option) listAllKeys_loop ::
  "kv_namespace \<Rightarrow> string list \<Rightarrow> string option \<Rightarrow> (exn + string list) option" where
  "listAllKeys_loop kv ks nextCursor =
     (case kv_list kv LIST_PAGE_SIZE nextCursor of
        Inl e \<Rightarrow> Some (Inl e)
      | Inr result \<Rightarrow>
          (let ks' = ks @ keys result;
               nextCursor' = (if list_complete result then None else cursor result)
           in if cursor_truthy nextCursor' then listAllKeys_loop kv ks' nextCursor'
              else Some (Inr ks')))"

definition listAllKeys :: "kv_namespace \<Rightarrow> string option \<Rightarrow> (exn + string list) option" where
  "listAllKeys kv c = listAllKeys_loop kv [] c"

text \<open>
  \<open>encodeURIComponent\<close> on code units of the Latin-1 range: the unreserved characters
  stay, every other one is the percent-escape of its UTF-8 bytes. (It throws only on a
  lone surrogate, which this range does not have.)
\<close>

definition hex2 :: "nat \<Rightarrow> string" where
  "hex2 n = [digit_char (n div 16), digit_char (n mod 16)]"

definition uri_unreserved :: "char \<Rightarrow> bool" where
  "uri_unreserved c = (is_alnum c \<or> c \<in> set ''-_.!~*()'' \<or> code_unit c = 39)"

definition encode_unit :: "char \<Rightarrow> string" where
  "encode_unit c =
     (if uri_unreserved c then [c]
      else if code_unit c < 128 then ''%'' @ hex2 (code_unit c)
      else ''%'' @ hex2 (192 + code_unit c div 64) @ ''%'' @ hex2 (128 + code_unit c mod 64))"

definition encodeURIComponent :: "string \<Rightarrow> string" where
  "encodeURIComponent t = concat (map encode_unit t)"

text \<open>\<open>typeof v === 'number'\<close>.\<close>

fun is_number :: "jsval \<Rightarrow> bool" where
  "is_number (JNum n) = True"
| "is_number (JInf b) = True"
| "is_number JNaN = True"
| "is_number v = False"

text \<open>
  \<open>buildItem\<close>. \<open>valueText\<close> is \<open>None\<close> for \<open>null\<close>. The reads follow the source's
  short circuits: \<open>extra.fileName\<close> is read only when \<open>m.fileName\<close> is falsy, and
  \<open>extra.uploadTime\<close> only when \<open>m.TimeStamp\<close> is \<open>null\<close> or \<open>undefined\<close>.
  \<open>parseInt\<close> may throw, and only the parse of the value text is inside a
  \<open>try\<close>.
\<close>

definition buildItem :: "platform \<Rightarrow> string \<Rightarrow> string \<Rightarrow> jsval \<Rightarrow> string option \<Rightarrow> exn + jsval" where
  "buildItem P orig keyName metadata valueText =
     (let extra =
            (case valueText of
               None \<Rightarrow> JObj []
             | Some t \<Rightarrow>
                 if t \<noteq> [] \<and> js_trim t \<noteq> []
                 then (case json_parse P t of None \<Rightarrow> JObj [] | Some v \<Rightarrow> v)
                 else JObj []);
          m = js_or metadata (JObj []);
          url = orig @ ''/file/'' @ encodeURIComponent keyName
      in
      case get_prop m ''fileName'' of
        Inl e \<Rightarrow> Inl e
      | Inr mFileName \<Rightarrow>
      (case (if truthy mFileName then Inr mFileName
             else case get_prop extra ''fileName'' of
               Inl e \<Rightarrow> Inl e
             | Inr eFileName \<Rightarrow> Inr (js_or eFileName (JStr keyName))) of
         Inl e \<Rightarrow> Inl e
       | Inr fileName \<Rightarrow>
      (case get_prop m ''TimeStamp'' of
         Inl e \<Rightarrow> Inl e
       | Inr mTimeStamp \<Rightarrow>
      (case (if \<not> nullish mTimeStamp then Inr mTimeStamp
             else case get_prop extra ''uploadTime'' of
               Inl e \<Rightarrow> Inl e
             | Inr eUploadTime \<Rightarrow>
                 if \<not> nullish eUploadTime then Inr eUploadTime
                 else (case get_prop extra ''TimeStamp'' of
                         Inl e \<Rightarrow> Inl e
                       | Inr eTimeStamp \<Rightarrow> Inr (js_coalesce eTimeStamp JNull))) of
         Inl e \<Rightarrow> Inl e
       | Inr uploadTime \<Rightarrow>
      (case (if \<not> nullish uploadTime
             then (if is_number uploadTime then Inr uploadTime else parseInt10 P uploadTime)
             else Inr JNull) of
         Inl e \<Rightarrow> Inl e
       | Inr coerced \<Rightarrow>
      (case get_prop m ''storageType'' of
         Inl e \<Rightarrow> Inl e
       | Inr storageType \<Rightarrow>
           Inr (JObj
             ([(''key'', JStr keyName),
               (''url'', JStr url),
               (''fileName'', fileName),
               (''uploadTime'', coerced)]
              @ (if truthy storageType then [(''storageType'', storageType)] else [])))))))))"

text \<open>
  \<open>fetchAllWithMetadata\<close>. \<open>Promise.all\<close> gives the results in the order of the
  batch. When several calls of a batch reject, it rejects with the reason that settles
  first; the model takes the first of the batch, and no theorem depends on which.
\<close>

record kv_row =
  row_name :: string
  row_text :: "string option"
  row_metadata :: jsval

definition fetch_one :: "kv_namespace \<Rightarrow> string \<Rightarrow> exn + kv_row" where
  "fetch_one kv nm =
     (case getWithMetadata kv nm of
        Inl e \<Rightarrow> Inl e
      | Inr r \<Rightarrow>
          Inr \<lparr>row_name = nm,
               row_text = (case r of None \<Rightarrow> None | Some x \<Rightarrow> read_text x),
               row_metadata = (case r of None \<Rightarrow> JNull | Some x \<Rightarrow> js_coalesce (read_metadata x) JNull)\<rparr>)"

fun promise_all :: "(exn + 'a) list \<Rightarrow> exn + 'a list" where
  "promise_all [] = Inr []"
| "promise_all (Inl e # rs) = Inl e"
| "promise_all (Inr v # rs) = (case promise_all rs of Inl e \<Rightarrow> Inl e | Inr vs \<Rightarrow> Inr (v # vs))"

function fetch_batches :: "kv_namespace \<Rightarrow> string list \<Rightarrow> nat \<Rightarrow> kv_row list \<Rightarrow> exn + kv_row list" where
  "fetch_batches kv keyNames i results =
     (if i < length keyNames
      then (case promise_all (map (fetch_one kv) (take BATCH_SIZE (drop i keyNames))) of
              Inl e \<Rightarrow> Inl e
            | Inr batchResults \<Rightarrow> fetch_batches kv keyNames (i + BATCH_SIZE) (results @ batchResults))
      else Inr results)"
  by pat_completeness auto
termination
  by (relation "measure (\<lambda>(kv, keyNames, i, results). length keyNames - i)")
     (auto simp: BATCH_SIZE_def)

definition fetchAllWithMetadata :: "kv_namespace \<Rightarrow> string list \<Rightarrow> exn + kv_row list" where
  "fetchAllWithMetadata kv keyNames = fetch_batches kv keyNames 0 []"

text \<open>\<open>fetched.map(({ name, value, metadata }) => buildItem(origin, name, metadata, value))\<close>;
  the first throw ends the map.\<close>

fun build_all :: "platform \<Rightarrow> string \<Rightarrow> kv_row list \<Rightarrow> exn + jsval list" where
  "build_all P orig [] = Inr []"
| "build_all P orig (r # rs) =
     (case buildItem P orig (row_name r) (row_metadata r) (row_text r) of
        Inl e \<Rightarrow> Inl e
      | Inr it \<Rightarrow> (case build_all P orig rs of Inl e \<Rightarrow> Inl e | Inr its \<Rightarrow> Inr (it # its)))"

text \<open>The reply of the \<open>catch\<close> block: \<open>errResponse(e.message || "Internal error", 500)\<close>.\<close>

definition list_error :: "exn \<Rightarrow> response" where
  "list_error e =
     errResponse LIST_CORS_HEADERS (if message e \<noteq> [] then message e else ''Internal error'') 500"

text \<open>\<open>onRequestGet\<close>; \<open>None\<close> when the walk over the pages never ends.\<close>

definition onRequestGet :: "platform \<Rightarrow> request \<Rightarrow> list_env \<Rightarrow> response option" where
  "onRequestGet P req env =
     (if LIST_BASIC_PASS env \<noteq> None \<and> LIST_BASIC_PASS env \<noteq> Some []
         \<and> pwd_param req \<noteq> LIST_BASIC_PASS env
      then Some (errResponse LIST_CORS_HEADERS ''Unauthorized'' 401)
      else case list_img_url env of
        None \<Rightarrow> Some (errResponse LIST_CORS_HEADERS ''KV namespace img_url not configured'' 500)
      | Some kv \<Rightarrow>
          (case listAllKeys kv (if cursor_truthy (cursor_param req) then cursor_param req else None) of
             None \<Rightarrow> None
           | Some (Inl e) \<Rightarrow> Some (list_error e)
           | Some (Inr keyNames) \<Rightarrow>
               (case fetchAllWithMetadata kv keyNames of
                  Inl e \<Rightarrow> Some (list_error e)
                | Inr fetched \<Rightarrow>
                    (case build_all P (origin req) fetched of
                       Inl e \<Rightarrow> Some (list_error e)
                     | Inr items \<Rightarrow>
                         Some (jsonResponse LIST_CORS_HEADERS
                           (JObj [(''list'', JArr items), (''total'', JNum (int (length items)))]) 200)))))"

section \<open>Notions the properties are stated with\<close>

text \<open>A read that never throws: \<open>undefined\<close> where \<open>get_prop\<close> would throw.\<close>

definition js_get :: "jsval \<Rightarrow> string \<Rightarrow> jsval" where
  "js_get v k = (case get_prop v k of Inl e \<Rightarrow> JUndef | Inr x \<Rightarrow> x)"

subsection \<open>Photo variants\<close>

text \<open>
  A photo variant as the Bot API documents it (\<open>PhotoSize\<close>): an object whose
  \<open>file_size\<close> is an integer or absent. Its reported size counts an absent
  \<open>file_size\<close> as 0.
\<close>

definition is_variant :: "jsval \<Rightarrow> bool" where
  "is_variant v =
     (case v of
        JObj ps \<Rightarrow> (case map_of ps ''file_size'' of None \<Rightarrow> True | Some (JNum n) \<Rightarrow> True | Some other \<Rightarrow> False)
      | other \<Rightarrow> False)"

definition variant_size :: "jsval \<Rightarrow> int" where
  "variant_size v = (case js_get v ''file_size'' of JNum n \<Rightarrow> n | other \<Rightarrow> 0)"

text \<open>
  The reduction the two photo functions have in common, written once: the callback, and
  the variant the reduction ends with (\<open>None\<close> when the guard of the functions finds no
  photo list, \<open>Inl\<close> when the reduction throws).
\<close>

definition pick_larger :: "platform \<Rightarrow> jsval \<Rightarrow> jsval \<Rightarrow> exn + jsval" where
  "pick_larger P prev cur =
     (if \<not> truthy prev then Inr cur
      else case get_prop prev ''file_size'' of
        Inl e \<Rightarrow> Inl e
      | Inr ps \<Rightarrow>
          (case get_prop cur ''file_size'' of
             Inl e \<Rightarrow> Inl e
           | Inr cs \<Rightarrow>
               (case js_gt P (js_or ps (JNum 0)) (js_or cs (JNum 0)) of
                  Inl e \<Rightarrow> Inl e
                | Inr gt \<Rightarrow> Inr (if gt then prev else cur))))"

definition largest_variant :: "platform \<Rightarrow> jsval \<Rightarrow> (exn + jsval) option" where
  "largest_variant P result =
     (case js_get result ''photo'' of
        JArr photo \<Rightarrow> if truthy result \<and> photo \<noteq> [] then Some (js_reduce (pick_larger P) photo) else None
      | other \<Rightarrow> None)"

subsection \<open>The presented credential\<close>

text \<open>
  The credential of an ingestion request in the specification's words: a non-empty
  \<open>pwd\<close> query parameter if one exists, else the value of the Authorization header
  with the \<open>Bearer\<close> prefix stripped and trimmed, else none.
\<close>

definition bearer_token :: "request \<Rightarrow> string option" where
  "bearer_token req =
     (case authorization req of
        None \<Rightarrow> None
      | Some auth \<Rightarrow> if take 7 auth = ''Bearer '' then Some (js_trim (drop 7 auth)) else None)"

definition presented_credential :: "request \<Rightarrow> string option" where
  "presented_credential req =
     (case pwd_param req of
        None \<Rightarrow> bearer_token req
      | Some pwd \<Rightarrow> if pwd = [] then bearer_token req else Some pwd)"

text \<open>Access in the specification's words: the secret is absent or empty, or the
  credential equals it.\<close>

definition access_granted :: "string option \<Rightarrow> string option \<Rightarrow> bool" where
  "access_granted secret credential = (secret = None \<or> secret = Some [] \<or> credential = secret)"

subsection \<open>A namespace that serves its keys in pages\<close>

text \<open>
  \<open>serves_pages kv lim c pages\<close>: asked from cursor \<open>c\<close> with limit \<open>lim\<close>, the
  namespace hands out the pages of \<open>pages\<close> one after the other, none longer than the
  limit: every page but the last with \<open>list_complete\<close> false and a cursor (a string that is
  not empty) leading to the next page, the last with \<open>list_complete\<close> true.
\<close>

fun serves_pages :: "kv_namespace \<Rightarrow> nat \<Rightarrow> string option \<Rightarrow> string list list \<Rightarrow> bool" where
  "serves_pages kv lim c [] = False"
| "serves_pages kv lim c [p] =
     (case kv_list kv lim c of
        Inl e \<Rightarrow> False
      | Inr r \<Rightarrow> keys r = p \<and> length p \<le> lim \<and> list_complete r)"
| "serves_pages kv lim c (p # q # ps) =
     (case kv_list kv lim c of
        Inl e \<Rightarrow> False
      | Inr r \<Rightarrow> keys r = p \<and> length p \<le> lim \<and> \<not> list_complete r \<and> cursor_truthy (cursor r)
                 \<and> serves_pages kv lim (cursor r) (q # ps))"

subsection \<open>The value payload and the fields of a listing item\<close>

text \<open>
  The extra data of a record in the specification's words: the value text parsed as
  JSON when it is not empty after trimming; no extra data (the empty object) when there
  is no text or the parse fails.
\<close>

definition payload :: "platform \<Rightarrow> string option \<Rightarrow> jsval" where
  "payload P valueText =
     (case valueText of
        None \<Rightarrow> JObj []
      | Some t \<Rightarrow>
          if js_trim t = [] then JObj []
          else (case json_parse P t of None \<Rightarrow> JObj [] | Some v \<Rightarrow> v))"

text \<open>The file name by precedence: the metadata's, else the payload's, else the key;
  a candidate counts when it is truthy.\<close>

definition resolved_fileName :: "jsval \<Rightarrow> jsval \<Rightarrow> string \<Rightarrow> jsval" where
  "resolved_fileName metadata extra keyName =
     (if truthy (js_get metadata ''fileName'') then js_get metadata ''fileName''
      else if truthy (js_get extra ''fileName'') then js_get extra ''fileName''
      else JStr keyName)"

text \<open>The upload time by precedence: the metadata's \<open>TimeStamp\<close>, else the payload's
  \<open>uploadTime\<close>, else the payload's \<open>TimeStamp\<close>, else \<open>null\<close>; a candidate counts
  when it is neither \<open>null\<close> nor \<open>undefined\<close>.\<close>

definition resolved_uploadTime :: "jsval \<Rightarrow> jsval \<Rightarrow> jsval" where
  "resolved_uploadTime metadata extra =
     (if \<not> nullish (js_get metadata ''TimeStamp'') then js_get metadata ''TimeStamp''
      else if \<not> nullish (js_get extra ''uploadTime'') then js_get extra ''uploadTime''
      else if \<not> nullish (js_get extra ''TimeStamp'') then js_get extra ''TimeStamp''
      else JNull)"

text \<open>The coercion: a number passes through, any other value that is not \<open>null\<close> is
  parsed as a base-10 integer, which throws when the value has no text.\<close>

definition coerce_time :: "platform \<Rightarrow> jsval \<Rightarrow> exn + jsval" where
  "coerce_time P t =
     (if nullish t then Inr JNull else if is_number t then Inr t else parseInt10 P t)"

text \<open>
  The listing item in the specification's words: the key, the URL
  \<open>{origin}/file/{percent-encoded key}\<close>, the file name by precedence, the coerced
  upload time \<open>uploadTime\<close>, and the storage type echoed when the metadata has one.
\<close>

definition listing_item :: "string \<Rightarrow> string \<Rightarrow> jsval \<Rightarrow> jsval \<Rightarrow> jsval \<Rightarrow> jsval" where
  "listing_item orig keyName metadata extra uploadTime =
     JObj ([(''key'', JStr keyName),
            (''url'', JStr (orig @ ''/file/'' @ encodeURIComponent keyName)),
            (''fileName'', resolved_fileName metadata extra keyName),
            (''uploadTime'', uploadTime)]
           @ (if truthy (js_get metadata ''storageType'')
              then [(''storageType'', js_get metadata ''storageType'')] else []))"

text \<open>The item assembled from the metadata alone, around its coerced upload time.\<close>

definition metadata_item :: "string \<Rightarrow> string \<Rightarrow> jsval \<Rightarrow> jsval \<Rightarrow> jsval" where
  "metadata_item orig keyName metadata uploadTime =
     JObj ([(''key'', JStr keyName),
            (''url'', JStr (orig @ ''/file/'' @ encodeURIComponent keyName)),
            (''fileName'', if truthy (js_get metadata ''fileName'') then js_get metadata ''fileName''
                           else JStr keyName),
            (''uploadTime'', uploadTime)]
           @ (if truthy (js_get metadata ''storageType'')
              then [(''storageType'', js_get metadata ''storageType'')] else []))"

text \<open>
  A value has a text when ToString does not throw on it: every value but an object with
  an own property \<open>toString\<close> and an array that holds, at any depth of arrays, such an
  object.
\<close>

fun has_text :: "jsval \<Rightarrow> bool" where
  "has_text (JObj ps) = (map_of ps ''toString'' = None)"
| "has_text (JArr xs) = list_all (\<lambda>x. has_text x) xs"
| "has_text v = True"

section \<open>Example inputs\<close>

text \<open>
  A platform for the examples: it agrees with \<open>JSON.parse\<close> and with the URL parser
  on the texts the examples use, and no example compares a string with a number, or prints
  or parses an integer above 2^53.
\<close>

definition example_platform :: platform where
  \<open>example_platform =
     \<lparr>json_parse = (\<lambda>t.
        if t = ''{"fileName":"b"}'' then Some (JObj [(''fileName'', JStr ''b'')])
        else if t = ''{"fileName":""}'' then Some (JObj [(''fileName'', JStr [])])
        else if t = ''{"uploadTime":9,"TimeStamp":9}''
          then Some (JObj [(''uploadTime'', JNum 9), (''TimeStamp'', JNum 9)])
        else if t = ''null'' then Some JNull
        else None),
      url_pathname = (\<lambda>u. if u = ''https://x.com/pic.PNG?x=1'' then Some ''/pic.PNG'' else None),
      string_vs_number = (\<lambda>t n. None),
      large_number_text = (\<lambda>n. ''1e+21''),
      integer_number = (\<lambda>n. JNum n)\<rparr>\<close>

text \<open>The photo variants of the specification's example, of sizes 100, 300 and 300, and
  a result of the Bot API that carries them.\<close>

definition example_variants :: "jsval list" where
  "example_variants =
     [JObj [(''file_id'', JStr ''small''), (''file_size'', JNum 100)],
      JObj [(''file_id'', JStr ''first300''), (''file_size'', JNum 300)],
      JObj [(''file_id'', JStr ''second300''), (''file_size'', JNum 300)]]"

definition example_result :: jsval where
  "example_result = JObj [(''message_id'', JNum 7), (''photo'', JArr example_variants)]"

text \<open>An ingestion set-up: the configuration, an empty namespace with nothing sent yet,
  and three outside worlds: the Bot API rejects the URL; it accepts the photo; it accepts
  the photo and the \<open>put\<close> rejects.\<close>

definition example_env :: upload_env where
  "example_env = \<lparr>BASIC_PASS = Some ''secret'', TG_Bot_Token = Some ''123:abc'', TG_Chat_ID = Some ''42''\<rparr>"

definition example_sys :: sys where
  "example_sys = \<lparr>img_url = Some Map.empty, sent = []\<rparr>"

definition api_rejects :: outside where
  "api_rejects =
     \<lparr>fetch_outcome = JsonData (JObj [(''ok'', JBool False),
                                       (''description'', JStr ''Bad Request: wrong HTTP URL specified'')]),
      date_now = 1700000000000,
      random_id = ''k3j9x0ab'',
      put_rejects = None\<rparr>"

definition api_accepts :: outside where
  "api_accepts =
     \<lparr>fetch_outcome = JsonData (JObj [(''ok'', JBool True), (''result'', example_result)]),
      date_now = 1700000000000,
      random_id = ''k3j9x0ab'',
      put_rejects = None\<rparr>"

definition put_fails :: outside where
  "put_fails = api_accepts\<lparr>put_rejects := Some (Rejection ''KV PUT failed'')\<rparr>"

text \<open>A request that presents the wrong password, and the configuration of a listing
  handler with the same secret.\<close>

definition wrong_password :: request where
  "wrong_password =
     \<lparr>pwd_param = Some ''wrong'', cursor_param = None, authorization = None,
      origin = ''https://img.example'',
      json_body = Some (JObj [(''list'', JArr [JObj [(''url'', JStr ''https://x.com/pic.PNG?x=1'')]])])\<rparr>"

text \<open>A namespace of three keys served in two pages.\<close>

definition example_namespace :: kv_namespace where
  "example_namespace =
     \<lparr>kv_list = (\<lambda>lim c.
        if c = None
          then Inr \<lparr>keys = [''a.png'', ''b.png''], list_complete = False, cursor = Some ''page2''\<rparr>
        else if c = Some ''page2''
          then Inr \<lparr>keys = [''c.png''], list_complete = True, cursor = None\<rparr>
        else Inl (Rejection ''Invalid cursor'')),
      getWithMetadata = (\<lambda>k. Inr None)\<rparr>"

definition example_list_env :: list_env where
  "example_list_env = \<lparr>LIST_BASIC_PASS = Some ''secret'', list_img_url = Some example_namespace\<rparr>"

section \<open>Properties of the record normalizer\<close>

text \<open>ToString returns exactly on the values that have a text, and throws a TypeError on the others.\<close>

lemma js_String_has_text:
  "(\<exists>t. js_String P v = Inr t) = has_text v"
  "(\<exists>ts. js_String_all P vs = Inr ts) = list_all has_text vs"
proof (induction P v and P vs rule: js_String_js_String_all.induct)
  case (8 P xs)
  then show ?case by (auto split: sum.splits)
next
  case (11 P x xs)
  then show ?case by (cases x) (auto split: sum.splits)
qed auto

lemma js_String_throws:
  "js_String P v = Inl e \<Longrightarrow> e = TypeError ''Cannot convert object to primitive value''"
  "js_String_all P vs = Inl e \<Longrightarrow> e = TypeError ''Cannot convert object to primitive value''"
proof (induction P v and P vs rule: js_String_js_String_all.induct)
  case (8 P xs)
  then show ?case by (auto split: sum.splits)
next
  case (11 P x xs)
  then show ?case by (auto split: sum.splits if_splits)
qed (auto split: if_splits)

lemma js_String_no_text:
  "\<not> has_text v \<Longrightarrow> js_String P v = Inl (TypeError ''Cannot convert object to primitive value'')"
  using js_String_has_text(1)[of P v] js_String_throws(1)[of P v]
  by (cases "js_String P v") auto

lemma no_text_not_primitive: "\<not> has_text v \<Longrightarrow> \<not> nullish v \<and> \<not> is_number v"
  by (cases v) auto

lemma coerce_time_returns: "has_text t \<Longrightarrow> \<exists>ut. coerce_time P t = Inr ut"
  using js_String_has_text(1)[of P t]
  by (auto simp: coerce_time_def parseInt10_def)

lemma coerce_time_throws:
  "\<not> has_text t \<Longrightarrow> coerce_time P t = Inl (TypeError ''Cannot convert object to primitive value'')"
  using no_text_not_primitive[of t] js_String_no_text[of t P]
  by (simp add: coerce_time_def parseInt10_def)

lemma get_prop_or_empty: "get_prop (js_or md (JObj [])) k = Inr (js_get md k)"
  by (cases md) (auto simp: js_get_def js_or_def)

lemma get_prop_not_nullish: "\<not> nullish v \<Longrightarrow> get_prop v k = Inr (js_get v k)"
  by (cases v) (auto simp: js_get_def)

lemma js_get_nullish: "nullish v \<Longrightarrow> js_get v k = JUndef"
  by (cases v) (auto simp: js_get_def)

lemma payload_eq:
  "(case valueText of None \<Rightarrow> JObj [] | Some t \<Rightarrow>
      if t \<noteq> [] \<and> js_trim t \<noteq> [] then (case json_parse P t of None \<Rightarrow> JObj [] | Some v \<Rightarrow> v) else JObj [])
   = payload P valueText"
  by (auto simp: payload_def js_trim_def split: option.splits)

lemma coerce_eq:
  "(if \<not> nullish t then (if is_number t then Inr t else parseInt10 P t) else Inr JNull)
   = coerce_time P t"
  by (simp add: coerce_time_def)

lemma js_or_JStr: "js_or a (JStr k) = (if truthy a then a else JStr k)"
  by (simp add: js_or_def)

text \<open>When the payload is not \<open>null\<close>, \<open>buildItem\<close> is the coercion of the resolved
  timestamp followed by the listing item.\<close>

lemma buildItem_total:
  assumes "\<not> nullish (payload P valueText)"
  shows "buildItem P orig keyName metadata valueText
         = (case coerce_time P (resolved_uploadTime metadata (payload P valueText)) of
              Inl e \<Rightarrow> Inl e
            | Inr ut \<Rightarrow> Inr (listing_item orig keyName metadata (payload P valueText) ut))"
  unfolding buildItem_def payload_eq Let_def coerce_eq
  using assms
  by (cases "truthy (js_get metadata ''fileName'')";
      cases "nullish (js_get metadata ''TimeStamp'')";
      cases "nullish (js_get (payload P valueText) ''uploadTime'')")
     (simp_all add: get_prop_or_empty get_prop_not_nullish listing_item_def resolved_fileName_def
        resolved_uploadTime_def js_or_JStr js_coalesce_def split: sum.splits)

text \<open>Whatever \<open>buildItem\<close> returns is the listing item around the coerced timestamp.\<close>

lemma buildItem_Inr:
  assumes "buildItem P orig keyName metadata valueText = Inr item"
  shows "\<exists>ut. coerce_time P (resolved_uploadTime metadata (payload P valueText)) = Inr ut
            \<and> item = listing_item orig keyName metadata (payload P valueText) ut"
proof (cases "nullish (payload P valueText)")
  case False
  then show ?thesis using assms by (auto simp: buildItem_total split: sum.splits)
next
  case True
  then obtain e where e: "\<And>k. get_prop (payload P valueText) k = Inl e"
    by (cases "payload P valueText") auto
  have f: "truthy (js_get metadata ''fileName'')"
    using assms unfolding buildItem_def payload_eq Let_def coerce_eq
    by (cases "truthy (js_get metadata ''fileName'')") (simp_all add: get_prop_or_empty e)
  have t: "\<not> nullish (js_get metadata ''TimeStamp'')"
    using assms f unfolding buildItem_def payload_eq Let_def coerce_eq
    by (cases "nullish (js_get metadata ''TimeStamp'')") (simp_all add: get_prop_or_empty e)
  have r: "resolved_uploadTime metadata (payload P valueText) = js_get metadata ''TimeStamp''"
    "resolved_fileName metadata (payload P valueText) keyName = js_get metadata ''fileName''"
    using f t by (simp_all add: resolved_uploadTime_def resolved_fileName_def)
  show ?thesis
    using assms f t unfolding buildItem_def payload_eq Let_def coerce_eq r
    by (cases "coerce_time P (js_get metadata ''TimeStamp'')")
       (simp_all add: get_prop_or_empty listing_item_def r)
qed

lemma listing_item_fileName:
  "get_prop (listing_item orig keyName metadata extra ut) ''fileName''
   = Inr (resolved_fileName metadata extra keyName)"
  by (simp add: listing_item_def)

lemma listing_item_uploadTime:
  "get_prop (listing_item orig keyName metadata extra ut) ''uploadTime'' = Inr ut"
  by (simp add: listing_item_def)

text \<open>Unfolding the definitions that the examples evaluate.\<close>

lemmas eval_defs = example_platform_def metadata_item_def listing_item_def js_get_def coerce_time_def
  encodeURIComponent_def encode_unit_def uri_unreserved_def is_alnum_def is_digit_def code_unit_def
  hex2_def digit_char_def payload_def js_trim_def is_space_def resolved_fileName_def
  resolved_uploadTime_def js_or_def js_coalesce_def

text \<open>A value text that is the JSON \<open>null\<close> makes \<open>buildItem\<close> throw as soon as it
  reads a property of the payload; \<open>onRequestGet\<close> then answers 500.\<close>

lemma buildItem_null_payload:
  "buildItem example_platform ''https://img.example'' ''k1'' JNull (Some ''null'')
   = Inl (TypeError ''Cannot read properties of null'')"
  by (simp add: buildItem_def example_platform_def js_trim_def is_space_def code_unit_def js_or_def)

text \<open>
  Claim C4, as amended. Whenever the record normalizer returns an item, its
  \<open>uploadTime\<close> is the coerced resolved timestamp: the metadata \<open>TimeStamp\<close> when
  that is not \<open>null\<close>, else the payload's \<open>uploadTime\<close>, else the payload's
  \<open>TimeStamp\<close>, else \<open>null\<close>; a number passes through unchanged and any other
  value that is not \<open>null\<close> is turned into its text and parsed as a base-10 integer
  (not-a-number when the text starts with no digit). When the payload is not the JSON
  value \<open>null\<close>, an item is returned if the resolved timestamp has a text, and the
  normalizer throws a TypeError if it has none (an object with an own property
  \<open>toString\<close>, or an array that holds one).
\<close>

theorem buildItem_uploadTime_precedence:
  "(buildItem P orig keyName metadata valueText = Inr item \<longrightarrow>
      (\<exists>ut. coerce_time P (resolved_uploadTime metadata (payload P valueText)) = Inr ut
          \<and> get_prop item ''uploadTime'' = Inr ut))
   \<and> (\<not> nullish (payload P valueText) \<and> has_text (resolved_uploadTime metadata (payload P valueText)) \<longrightarrow>
      (\<exists>it. buildItem P orig keyName metadata valueText = Inr it))
   \<and> (\<not> nullish (payload P valueText) \<and> \<not> has_text (resolved_uploadTime metadata (payload P valueText)) \<longrightarrow>
      buildItem P orig keyName metadata valueText
      = Inl (TypeError ''Cannot convert object to primitive value''))"
proof (intro conjI impI)
  assume "buildItem P orig keyName metadata valueText = Inr item"
  from buildItem_Inr[OF this]
  show "\<exists>ut. coerce_time P (resolved_uploadTime metadata (payload P valueText)) = Inr ut
          \<and> get_prop item ''uploadTime'' = Inr ut"
    by (auto simp: listing_item_uploadTime)
next
  assume a: "\<not> nullish (payload P valueText) \<and> has_text (resolved_uploadTime metadata (payload P valueText))"
  with coerce_time_returns[of "resolved_uploadTime metadata (payload P valueText)" P]
  show "\<exists>it. buildItem P orig keyName metadata valueText = Inr it"
    by (auto simp: buildItem_total)
next
  assume a: "\<not> nullish (payload P valueText) \<and> \<not> has_text (resolved_uploadTime metadata (payload P valueText))"
  with coerce_time_throws[of "resolved_uploadTime metadata (payload P valueText)" P]
  show "buildItem P orig keyName metadata valueText
      = Inl (TypeError ''Cannot convert object to primitive value'')"
    by (simp add: buildItem_total)
qed

text \<open>Not for every pair: a metadata \<open>TimeStamp\<close> that is the object
  \<open>{"toString":1}\<close> makes \<open>parseInt\<close> throw instead of giving an integer or
  not-a-number, and with the value text \<open>null\<close> the metadata \<open>TimeStamp: 5\<close> is
  never reached.\<close>

theorem buildItem_uploadTime_counterexample:
  \<open>buildItem example_platform ''https://img.example'' ''k1''
      (JObj [(''TimeStamp'', JObj [(''toString'', JNum 1)])]) None
    = Inl (TypeError ''Cannot convert object to primitive value'')
   \<and> buildItem example_platform ''https://img.example'' ''k1''
      (JObj [(''TimeStamp'', JNum 5)]) (Some ''null'')
    = Inl (TypeError ''Cannot read properties of null'')\<close>
proof -
  have \<open>buildItem example_platform ''https://img.example'' ''k1''
      (JObj [(''TimeStamp'', JObj [(''toString'', JNum 1)])]) None
    = Inl (TypeError ''Cannot convert object to primitive value'')\<close>
    by (simp add: buildItem_total payload_def resolved_uploadTime_def js_get_def coerce_time_def
        parseInt10_def)
  moreover have \<open>buildItem example_platform ''https://img.example'' ''k1''
      (JObj [(''TimeStamp'', JNum 5)]) (Some ''null'')
    = Inl (TypeError ''Cannot read properties of null'')\<close>
    by (simp add: buildItem_def example_platform_def js_trim_def is_space_def code_unit_def js_or_def)
  ultimately show ?thesis by simp
qed

text \<open>The example of the claim: metadata \<open>TimeStamp: 5\<close> wins over the payload's
  \<open>uploadTime: 9\<close> and \<open>TimeStamp: 9\<close>.\<close>

theorem buildItem_uploadTime_precedence_witness:
  \<open>\<exists>it. buildItem example_platform ''https://img.example'' ''k1''
           (JObj [(''TimeStamp'', JNum 5)]) (Some ''{"uploadTime":9,"TimeStamp":9}'') = Inr it
        \<and> get_prop it ''uploadTime'' = Inr (JNum 5)\<close>
proof -
  have p: \<open>payload example_platform (Some ''{"uploadTime":9,"TimeStamp":9}'')
           = JObj [(''uploadTime'', JNum 9), (''TimeStamp'', JNum 9)]\<close>
    by (simp add: eval_defs)
  have r: \<open>resolved_uploadTime (JObj [(''TimeStamp'', JNum 5)])
             (JObj [(''uploadTime'', JNum 9), (''TimeStamp'', JNum 9)]) = JNum 5\<close>
    by (simp add: eval_defs)
  have c: "coerce_time example_platform (JNum 5) = Inr (JNum 5)"
    by (simp add: coerce_time_def)
  from buildItem_uploadTime_precedence[of example_platform "''https://img.example''" "''k1''"
        "JObj [(''TimeStamp'', JNum 5)]" \<open>Some ''{"uploadTime":9,"TimeStamp":9}''\<close>]
  obtain it where it: \<open>buildItem example_platform ''https://img.example'' ''k1''
           (JObj [(''TimeStamp'', JNum 5)]) (Some ''{"uploadTime":9,"TimeStamp":9}'') = Inr it\<close>
    by (auto simp: p r)
  with buildItem_uploadTime_precedence[of example_platform "''https://img.example''" "''k1''"
        "JObj [(''TimeStamp'', JNum 5)]" \<open>Some ''{"uploadTime":9,"TimeStamp":9}''\<close> it]
  show ?thesis by (auto simp: p r c)
qed

text \<open>
  Claim C8, as amended. For every key, metadata and value text that \<open>JSON.parse\<close>
  rejects, the malformed payload is treated as no extra data and no parse error surfaces:
  the outcome is that of a record without value text. It is the item assembled from the
  metadata alone (with \<open>fileName\<close> falling back to the key and \<open>uploadTime\<close> to
  \<open>null\<close> when the metadata lacks them) whenever the metadata \<open>TimeStamp\<close> has a
  text, and a TypeError when it has none (an object with an own property \<open>toString\<close>,
  or an array that holds one).
\<close>

theorem buildItem_malformed_payload:
  assumes "json_parse P t = None"
  shows "buildItem P orig keyName metadata (Some t) = buildItem P orig keyName metadata None
     \<and> buildItem P orig keyName metadata (Some t)
        = (case coerce_time P (js_get metadata ''TimeStamp'') of
             Inl e \<Rightarrow> Inl e
           | Inr ut \<Rightarrow> Inr (metadata_item orig keyName metadata ut))
     \<and> (has_text (js_get metadata ''TimeStamp'') \<longrightarrow>
          (\<exists>ut. buildItem P orig keyName metadata (Some t) = Inr (metadata_item orig keyName metadata ut)))
     \<and> (\<not> has_text (js_get metadata ''TimeStamp'') \<longrightarrow>
          buildItem P orig keyName metadata (Some t)
          = Inl (TypeError ''Cannot convert object to primitive value''))
     \<and> (nullish (js_get metadata ''TimeStamp'') \<longrightarrow>
          buildItem P orig keyName metadata (Some t) = Inr (metadata_item orig keyName metadata JNull))
     \<and> (\<not> truthy (js_get metadata ''fileName'') \<longrightarrow>
          (\<forall>ut. get_prop (metadata_item orig keyName metadata ut) ''fileName'' = Inr (JStr keyName)))"
proof -
  have p: "payload P (Some t) = JObj []" "payload P None = JObj []"
    using assms by (simp_all add: payload_def)
  have r: "coerce_time P (resolved_uploadTime metadata (JObj [])) = coerce_time P (js_get metadata ''TimeStamp'')"
    by (simp add: resolved_uploadTime_def js_get_def coerce_time_def)
  have m: "listing_item orig keyName metadata (JObj []) u = metadata_item orig keyName metadata u" for u
    by (simp add: listing_item_def metadata_item_def resolved_fileName_def js_get_def)
  have b: "buildItem P orig keyName metadata (Some t)
        = (case coerce_time P (js_get metadata ''TimeStamp'') of
             Inl e \<Rightarrow> Inl e
           | Inr ut \<Rightarrow> Inr (metadata_item orig keyName metadata ut))"
    by (simp add: buildItem_total p r m split: sum.splits)
  have n: "buildItem P orig keyName metadata None
        = (case coerce_time P (js_get metadata ''TimeStamp'') of
             Inl e \<Rightarrow> Inl e
           | Inr ut \<Rightarrow> Inr (metadata_item orig keyName metadata ut))"
    by (simp add: buildItem_total p r m split: sum.splits)
  show ?thesis
    using coerce_time_returns[of "js_get metadata ''TimeStamp''" P]
      coerce_time_throws[of "js_get metadata ''TimeStamp''" P]
    unfolding b n
    by (auto simp: metadata_item_def coerce_time_def)
qed

text \<open>The normalizer does throw on a value text that is not JSON, when the metadata
  \<open>TimeStamp\<close> is the object \<open>{"toString":1}\<close>.\<close>

theorem buildItem_malformed_payload_counterexample:
  "buildItem example_platform ''https://img.example'' ''k1''
      (JObj [(''TimeStamp'', JObj [(''toString'', JNum 1)])]) (Some ''{oops'')
   = Inl (TypeError ''Cannot convert object to primitive value'')"
proof -
  have p: "payload example_platform (Some ''{oops'') = JObj []"
    by (simp add: payload_def example_platform_def js_trim_def is_space_def code_unit_def)
  show ?thesis
    by (simp add: buildItem_total p resolved_uploadTime_def js_get_def coerce_time_def parseInt10_def)
qed

text \<open>A record with no metadata whose value text is not JSON.\<close>

theorem buildItem_malformed_payload_witness:
  "buildItem example_platform ''https://img.example'' ''k 1'' JNull (Some ''{oops'')
   = Inr (JObj [(''key'', JStr ''k 1''), (''url'', JStr ''https://img.example/file/k%201''),
                (''fileName'', JStr ''k 1''), (''uploadTime'', JNull)])"
proof -
  have "json_parse example_platform ''{oops'' = None"
    by (simp add: example_platform_def)
  note w = buildItem_malformed_payload[OF this, of "''https://img.example''" "''k 1''" JNull]
  have "nullish (js_get JNull ''TimeStamp'')"
    by (simp add: js_get_def)
  with w have "buildItem example_platform ''https://img.example'' ''k 1'' JNull (Some ''{oops'')
        = Inr (metadata_item ''https://img.example'' ''k 1'' JNull JNull)"
    by blast
  then show ?thesis
    by (simp add: metadata_item_def js_get_def encodeURIComponent_def encode_unit_def
        uri_unreserved_def is_alnum_def is_digit_def code_unit_def hex2_def digit_char_def)
qed

text \<open>
  Claim C5, as amended. Whenever the record normalizer returns an item, its
  \<open>fileName\<close> is the metadata \<open>fileName\<close> when one is given (a truthy value), else
  the payload's \<open>fileName\<close>, else the key itself. An item is returned whenever the
  payload is not the JSON value \<open>null\<close> and the resolved timestamp has a text.
\<close>

theorem buildItem_fileName_precedence:
  "(buildItem P orig keyName metadata valueText = Inr item \<longrightarrow>
      get_prop item ''fileName'' = Inr (resolved_fileName metadata (payload P valueText) keyName))
   \<and> (\<not> nullish (payload P valueText) \<and> has_text (resolved_uploadTime metadata (payload P valueText)) \<longrightarrow>
      (\<exists>it. buildItem P orig keyName metadata valueText = Inr it))"
proof (intro conjI impI)
  assume "buildItem P orig keyName metadata valueText = Inr item"
  from buildItem_Inr[OF this]
  show "get_prop item ''fileName'' = Inr (resolved_fileName metadata (payload P valueText) keyName)"
    by (auto simp: listing_item_fileName)
next
  assume "\<not> nullish (payload P valueText) \<and> has_text (resolved_uploadTime metadata (payload P valueText))"
  with coerce_time_returns[of "resolved_uploadTime metadata (payload P valueText)" P]
  show "\<exists>it. buildItem P orig keyName metadata valueText = Inr it"
    by (auto simp: buildItem_total)
qed

text \<open>Not for every pair: with no metadata file name and the value text \<open>null\<close> the
  normalizer throws instead of giving the key, and with metadata
  \<open>{fileName:"a"}\<close> whose \<open>TimeStamp\<close> is the object \<open>{"toString":1}\<close> it throws
  instead of giving \<open>a\<close>.\<close>

theorem buildItem_fileName_counterexample:
  \<open>buildItem example_platform ''https://img.example'' ''k1'' (JObj []) (Some ''null'')
    = Inl (TypeError ''Cannot read properties of null'')
   \<and> buildItem example_platform ''https://img.example'' ''k1''
      (JObj [(''fileName'', JStr ''a''), (''TimeStamp'', JObj [(''toString'', JNum 1)])])
      (Some ''{"fileName":"b"}'')
    = Inl (TypeError ''Cannot convert object to primitive value'')\<close>
proof -
  have \<open>buildItem example_platform ''https://img.example'' ''k1'' (JObj []) (Some ''null'')
    = Inl (TypeError ''Cannot read properties of null'')\<close>
    by (simp add: buildItem_def example_platform_def js_trim_def is_space_def code_unit_def js_or_def)
  moreover have p: \<open>payload example_platform (Some ''{"fileName":"b"}'') = JObj [(''fileName'', JStr ''b'')]\<close>
    by (simp add: eval_defs)
  have \<open>buildItem example_platform ''https://img.example'' ''k1''
      (JObj [(''fileName'', JStr ''a''), (''TimeStamp'', JObj [(''toString'', JNum 1)])])
      (Some ''{"fileName":"b"}'')
    = Inl (TypeError ''Cannot convert object to primitive value'')\<close>
    by (simp add: buildItem_total p resolved_uploadTime_def js_get_def coerce_time_def parseInt10_def)
  ultimately show ?thesis by simp
qed

text \<open>The examples of the claim: metadata \<open>{fileName:"a"}\<close> with value
  \<open>{"fileName":"b"}\<close> gives \<open>a\<close>; no metadata file name with that value gives \<open>b\<close>;
  neither gives the key.\<close>

theorem buildItem_fileName_precedence_witness:
  \<open>(\<exists>it. buildItem example_platform ''https://img.example'' ''k1''
            (JObj [(''fileName'', JStr ''a'')]) (Some ''{"fileName":"b"}'') = Inr it
         \<and> get_prop it ''fileName'' = Inr (JStr ''a''))
   \<and> (\<exists>it. buildItem example_platform ''https://img.example'' ''k1''
            (JObj []) (Some ''{"fileName":"b"}'') = Inr it
         \<and> get_prop it ''fileName'' = Inr (JStr ''b''))
   \<and> (\<exists>it. buildItem example_platform ''https://img.example'' ''k1'' JNull None = Inr it
         \<and> get_prop it ''fileName'' = Inr (JStr ''k1''))\<close>
proof -
  have p: \<open>payload example_platform (Some ''{"fileName":"b"}'') = JObj [(''fileName'', JStr ''b'')]\<close>
    \<open>payload example_platform None = JObj []\<close>
    by (simp_all add: eval_defs)
  have r: \<open>resolved_fileName (JObj [(''fileName'', JStr ''a'')]) (JObj [(''fileName'', JStr ''b'')]) ''k1'' = JStr ''a''\<close>
    \<open>resolved_fileName (JObj []) (JObj [(''fileName'', JStr ''b'')]) ''k1'' = JStr ''b''\<close>
    \<open>resolved_fileName JNull (JObj []) ''k1'' = JStr ''k1''\<close>
    by (simp_all add: eval_defs)
  have t: \<open>has_text (resolved_uploadTime (JObj [(''fileName'', JStr ''a'')]) (JObj [(''fileName'', JStr ''b'')]))\<close>
    \<open>has_text (resolved_uploadTime (JObj []) (JObj [(''fileName'', JStr ''b'')]))\<close>
    \<open>has_text (resolved_uploadTime JNull (JObj []))\<close>
    by (simp_all add: resolved_uploadTime_def js_get_def)
  have ex: \<open>\<exists>it. buildItem example_platform ''https://img.example'' ''k1'' md vt = Inr it
              \<and> get_prop it ''fileName'' = Inr (resolved_fileName md (payload example_platform vt) ''k1'')\<close>
    if \<open>\<not> nullish (payload example_platform vt)\<close>
      and \<open>has_text (resolved_uploadTime md (payload example_platform vt))\<close> for md vt
  proof -
    from that buildItem_fileName_precedence[of example_platform "''https://img.example''" "''k1''" md vt]
    obtain it where it: \<open>buildItem example_platform ''https://img.example'' ''k1'' md vt = Inr it\<close>
      by blast
    with buildItem_fileName_precedence[of example_platform "''https://img.example''" "''k1''" md vt it]
    show ?thesis by blast
  qed
  show ?thesis
    using ex[of \<open>Some ''{"fileName":"b"}''\<close> "JObj [(''fileName'', JStr ''a'')]"]
      ex[of \<open>Some ''{"fileName":"b"}''\<close> "JObj []"] ex[of None JNull]
    by (simp add: p r t)
qed

lemma resolved_fileName_not_empty:
  "keyName \<noteq> [] \<Longrightarrow> resolved_fileName metadata extra keyName \<noteq> JStr []"
  by (auto simp: resolved_fileName_def)

text \<open>
  Claim C10. The precedence of \<open>fileName\<close> goes by truthiness, not presence: a metadata
  \<open>fileName\<close> that is the empty string is skipped in favour of the payload's
  \<open>fileName\<close>, an empty payload \<open>fileName\<close> is skipped in favour of the key, and the
  empty string is never the \<open>fileName\<close> of an item whose key is not empty.
\<close>

theorem buildItem_fileName_truthiness:
  assumes "buildItem P orig keyName metadata valueText = Inr item"
  shows "(js_get metadata ''fileName'' = JStr [] \<longrightarrow>
            get_prop item ''fileName''
            = Inr (js_or (js_get (payload P valueText) ''fileName'') (JStr keyName)))
     \<and> (js_get metadata ''fileName'' = JStr [] \<and> js_get (payload P valueText) ''fileName'' = JStr [] \<longrightarrow>
            get_prop item ''fileName'' = Inr (JStr keyName))
     \<and> (keyName \<noteq> [] \<longrightarrow> get_prop item ''fileName'' \<noteq> Inr (JStr []))"
  using buildItem_Inr[OF assms] resolved_fileName_not_empty[of keyName metadata "payload P valueText"]
  by (auto simp: listing_item_fileName resolved_fileName_def js_or_def)

text \<open>Metadata \<open>{fileName:""}\<close>: the payload's \<open>b\<close> is taken, and the key when the
  payload's file name is empty too.\<close>

theorem buildItem_fileName_truthiness_witness:
  \<open>buildItem example_platform ''https://img.example'' ''k1''
      (JObj [(''fileName'', JStr [])]) (Some ''{"fileName":"b"}'')
    = Inr (JObj [(''key'', JStr ''k1''), (''url'', JStr ''https://img.example/file/k1''),
                 (''fileName'', JStr ''b''), (''uploadTime'', JNull)])
   \<and> get_prop (JObj [(''key'', JStr ''k1''), (''url'', JStr ''https://img.example/file/k1''),
                 (''fileName'', JStr ''b''), (''uploadTime'', JNull)]) ''fileName''
      = Inr (JStr ''b'')
   \<and> buildItem example_platform ''https://img.example'' ''k1''
      (JObj [(''fileName'', JStr [])]) (Some ''{"fileName":""}'')
    = Inr (JObj [(''key'', JStr ''k1''), (''url'', JStr ''https://img.example/file/k1''),
                 (''fileName'', JStr ''k1''), (''uploadTime'', JNull)])\<close>
proof -
  have p: \<open>payload example_platform (Some ''{"fileName":"b"}'') = JObj [(''fileName'', JStr ''b'')]\<close>
    \<open>payload example_platform (Some ''{"fileName":""}'') = JObj [(''fileName'', JStr [])]\<close>
    by (simp_all add: eval_defs)
  have c: \<open>coerce_time example_platform (resolved_uploadTime (JObj [(''fileName'', JStr [])]) ex) = Inr JNull\<close>
    if \<open>js_get ex ''uploadTime'' = JUndef\<close> \<open>js_get ex ''TimeStamp'' = JUndef\<close> for ex
    using that by (simp add: resolved_uploadTime_def coerce_time_def js_get_def)
  have b1: \<open>buildItem example_platform ''https://img.example'' ''k1''
      (JObj [(''fileName'', JStr [])]) (Some ''{"fileName":"b"}'')
    = Inr (JObj [(''key'', JStr ''k1''), (''url'', JStr ''https://img.example/file/k1''),
                 (''fileName'', JStr ''b''), (''uploadTime'', JNull)])\<close>
    by (simp add: buildItem_total p c js_get_def)
       (simp add: listing_item_def resolved_fileName_def js_get_def encodeURIComponent_def encode_unit_def
         uri_unreserved_def is_alnum_def is_digit_def code_unit_def)
  have b2: \<open>buildItem example_platform ''https://img.example'' ''k1''
      (JObj [(''fileName'', JStr [])]) (Some ''{"fileName":""}'')
    = Inr (JObj [(''key'', JStr ''k1''), (''url'', JStr ''https://img.example/file/k1''),
                 (''fileName'', JStr ''k1''), (''uploadTime'', JNull)])\<close>
    by (simp add: buildItem_total p c js_get_def)
       (simp add: listing_item_def resolved_fileName_def js_get_def encodeURIComponent_def encode_unit_def
         uri_unreserved_def is_alnum_def is_digit_def code_unit_def)
  show ?thesis
    using buildItem_fileName_truthiness[OF b1] b1 b2 by (simp add: p js_get_def js_or_def)
qed

section \<open>Properties of the photo functions\<close>

lemma is_variant_truthy: "is_variant v \<Longrightarrow> truthy v"
  by (cases v) (auto simp: is_variant_def)

lemma variant_operand:
  assumes "is_variant v"
  shows "\<exists>fs. get_prop v ''file_size'' = Inr fs \<and> js_or fs (JNum 0) = JNum (variant_size v)"
proof -
  from assms obtain ps where v: "v = JObj ps"
    by (cases v) (simp_all add: is_variant_def)
  show ?thesis
  proof (cases "map_of ps ''file_size''")
    case None
    then show ?thesis using v by (simp add: js_or_def variant_size_def js_get_def)
  next
    case (Some x)
    with assms v obtain n where "x = JNum n"
      by (cases x) (simp_all add: is_variant_def)
    with Some v show ?thesis by (simp add: js_or_def variant_size_def js_get_def)
  qed
qed

lemma js_gt_numbers: "js_gt P (JNum x) (JNum y) = Inr (y < x)"
  by (simp add: js_gt_def)

lemma pick_larger_variants:
  assumes "is_variant a" and "is_variant b"
  shows "pick_larger P a b = Inr (if variant_size b < variant_size a then a else b)"
proof -
  from variant_operand[OF assms(1)] obtain fa where
    fa: "get_prop a ''file_size'' = Inr fa" "js_or fa (JNum 0) = JNum (variant_size a)" by blast
  from variant_operand[OF assms(2)] obtain fb where
    fb: "get_prop b ''file_size'' = Inr fb" "js_or fb (JNum 0) = JNum (variant_size b)" by blast
  show ?thesis
    using is_variant_truthy[OF assms(1)] by (simp add: pick_larger_def fa fb js_gt_numbers)
qed

lemma reduce_from_variants:
  assumes "list_all is_variant xs" and "is_variant acc"
  shows "reduce_from (pick_larger P) acc xs
         = Inr (foldl (\<lambda>prev cur. if variant_size cur < variant_size prev then prev else cur) acc xs)"
  using assms
  by (induction xs arbitrary: acc) (auto simp: pick_larger_variants)


lemma callback_eq:
  "(\<lambda>prev cur.
      if \<not> truthy prev then Inr cur
      else case get_prop prev ''file_size'' of
        Inl e \<Rightarrow> Inl e
      | Inr ps \<Rightarrow>
          (case get_prop cur ''file_size'' of
             Inl e \<Rightarrow> Inl e
           | Inr cs \<Rightarrow>
               (case js_gt P (js_or ps (JNum 0)) (js_or cs (JNum 0)) of
                  Inl e \<Rightarrow> Inl e
                | Inr gt \<Rightarrow> Inr (if gt then prev else cur))))
   = pick_larger P"
  by (intro ext) (simp add: pick_larger_def)

lemma get_prop_truthy: "truthy v \<Longrightarrow> get_prop v k = Inr (js_get v k)"
  by (cases v) (simp_all add: js_get_def)

lemma largest_variant_falsy: "\<not> truthy result \<Longrightarrow> largest_variant P result = None"
  by (cases "js_get result ''photo''") (simp_all add: largest_variant_def)

lemma getFileIdFromPhoto_largest:
  "getFileIdFromPhoto P result =
     (case largest_variant P result of
        None \<Rightarrow> Inr JNull
      | Some (Inl e) \<Rightarrow> Inl e
      | Some (Inr v) \<Rightarrow> get_prop v ''file_id'')"
proof (cases "truthy result")
  case False
  then show ?thesis by (simp add: getFileIdFromPhoto_def largest_variant_falsy)
next
  case True
  then show ?thesis
    unfolding getFileIdFromPhoto_def callback_eq largest_variant_def
    by (cases "js_get result ''photo''") (simp_all add: get_prop_truthy)
qed

lemma getFileSizeFromPhoto_largest:
  "getFileSizeFromPhoto P result =
     (case largest_variant P result of
        None \<Rightarrow> Inr (JNum 0)
      | Some (Inl e) \<Rightarrow> Inl e
      | Some (Inr v) \<Rightarrow>
          (case get_prop v ''file_size'' of Inl e \<Rightarrow> Inl e | Inr fs \<Rightarrow> Inr (js_or fs (JNum 0))))"
proof (cases "truthy result")
  case False
  then show ?thesis by (simp add: getFileSizeFromPhoto_def largest_variant_falsy)
next
  case True
  then show ?thesis
    unfolding getFileSizeFromPhoto_def callback_eq largest_variant_def
    by (cases "js_get result ''photo''") (simp_all add: get_prop_truthy)
qed


lemma pick_larger_member: "pick_larger P acc x = Inr v \<Longrightarrow> v = acc \<or> v = x"
  unfolding pick_larger_def
  by (cases "truthy acc"; cases "get_prop acc ''file_size''"; cases "get_prop x ''file_size''")
     (auto split: sum.splits if_splits)

lemma reduce_from_member:
  "reduce_from (pick_larger P) acc xs = Inr v \<Longrightarrow> v \<in> set (acc # xs)"
proof (induction xs arbitrary: acc)
  case Nil
  then show ?case by simp
next
  case (Cons x xs)
  then obtain acc' where a: "pick_larger P acc x = Inr acc'" and r: "reduce_from (pick_larger P) acc' xs = Inr v"
    by (cases "pick_larger P acc x") simp_all
  from pick_larger_member[OF a] Cons.IH[OF r] show ?case by auto
qed

lemma largest_variant_member:
  assumes "largest_variant P result = Some (Inr v)"
  shows "\<exists>photo. js_get result ''photo'' = JArr photo \<and> v \<in> set photo"
proof (cases "js_get result ''photo''")
  case (JArr photo)
  show ?thesis
  proof (cases photo)
    case Nil
    with assms JArr show ?thesis by (simp add: largest_variant_def)
  next
    case (Cons x xs)
    with assms JArr have "reduce_from (pick_larger P) x xs = Inr v"
      by (simp add: largest_variant_def js_reduce_def split: if_splits)
    from reduce_from_member[OF this] JArr Cons show ?thesis by simp
  qed
qed (use assms in \<open>simp_all add: largest_variant_def\<close>)

lemma last_largest_step:
  fixes sz :: "'a \<Rightarrow> int"
  assumes len: "length zs = Suc (length ys)"
    and old: "\<And>j. j < length ys \<Longrightarrow> zs ! j = ys ! j"
    and new: "zs ! length ys = x"
    and i: "i < length ys"
    and le: "\<forall>j<length ys. sz (ys ! j) \<le> sz (ys ! i)"
    and lt: "\<forall>j<length ys. i < j \<longrightarrow> sz (ys ! j) < sz (ys ! i)"
  shows "\<exists>k<length zs. (if sz x < sz (ys ! i) then ys ! i else x) = zs ! k
         \<and> (\<forall>j<length zs. sz (zs ! j) \<le> sz (zs ! k))
         \<and> (\<forall>j<length zs. k < j \<longrightarrow> sz (zs ! j) < sz (zs ! k))"
proof (cases "sz x < sz (ys ! i)")
  case True
  have zi: "zs ! i = ys ! i" using old i by simp
  have a: "\<forall>j<length zs. sz (zs ! j) \<le> sz (zs ! i)"
  proof (intro allI impI)
    fix j assume "j < length zs"
    then consider "j < length ys" | "j = length ys" using len by force
    then show "sz (zs ! j) \<le> sz (zs ! i)"
    proof cases
      case 1 then show ?thesis using le old zi by simp
    next
      case 2 then show ?thesis using True new zi by simp
    qed
  qed
  have b: "\<forall>j<length zs. i < j \<longrightarrow> sz (zs ! j) < sz (zs ! i)"
  proof (intro allI impI)
    fix j assume "j < length zs" and ij: "i < j"
    then consider "j < length ys" | "j = length ys" using len by force
    then show "sz (zs ! j) < sz (zs ! i)"
    proof cases
      case 1 then show ?thesis using lt old zi ij by simp
    next
      case 2 then show ?thesis using True new zi by simp
    qed
  qed
  have "i < length zs" using i len by simp
  then show ?thesis using True zi a b by (intro exI[of _ i]) simp
next
  case False
  have a: "\<forall>j<length zs. sz (zs ! j) \<le> sz (zs ! length ys)"
  proof (intro allI impI)
    fix j assume "j < length zs"
    then consider "j < length ys" | "j = length ys" using len by force
    then show "sz (zs ! j) \<le> sz (zs ! length ys)"
    proof cases
      case 1
      then have "sz (ys ! j) \<le> sz (ys ! i)" using le by blast
      then show ?thesis using False 1 old new by simp
    next
      case 2 then show ?thesis by simp
    qed
  qed
  have b: "\<forall>j<length zs. length ys < j \<longrightarrow> sz (zs ! j) < sz (zs ! length ys)"
    using len by simp
  show ?thesis using False a b new len by (intro exI[of _ "length ys"]) simp
qed

lemma foldl_last_largest:
  fixes sz :: "'a \<Rightarrow> int"
  shows "\<exists>i<length (a # xs).
           foldl (\<lambda>prev cur. if sz cur < sz prev then prev else cur) a xs = (a # xs) ! i
         \<and> (\<forall>j<length (a # xs). sz ((a # xs) ! j) \<le> sz ((a # xs) ! i))
         \<and> (\<forall>j<length (a # xs). i < j \<longrightarrow> sz ((a # xs) ! j) < sz ((a # xs) ! i))"
proof (induction xs rule: rev_induct)
  case Nil
  show ?case by simp
next
  case (snoc x xs)
  from snoc obtain i where i: "i < length (a # xs)"
    and f: "foldl (\<lambda>prev cur. if sz cur < sz prev then prev else cur) a xs = (a # xs) ! i"
    and le: "\<forall>j<length (a # xs). sz ((a # xs) ! j) \<le> sz ((a # xs) ! i)"
    and lt: "\<forall>j<length (a # xs). i < j \<longrightarrow> sz ((a # xs) ! j) < sz ((a # xs) ! i)"
    by blast
  have len: "length (a # xs @ [x]) = Suc (length (a # xs))" by simp
  have old: "\<And>j. j < length (a # xs) \<Longrightarrow> (a # xs @ [x]) ! j = (a # xs) ! j"
    by (metis append_Cons nth_append)
  have new: "(a # xs @ [x]) ! length (a # xs) = x"
    by (metis append_Cons nth_append_length)
  have "foldl (\<lambda>prev cur. if sz cur < sz prev then prev else cur) a (xs @ [x])
        = (if sz x < sz ((a # xs) ! i) then (a # xs) ! i else x)"
    using f by simp
  then show ?case
    using last_largest_step[OF len old new i le lt] by presburger
qed

lemma variant_file_size:
  "is_variant v \<Longrightarrow>
   (case get_prop v ''file_size'' of Inl e \<Rightarrow> Inl e | Inr fs \<Rightarrow> Inr (js_or fs (JNum 0)))
   = Inr (JNum (variant_size v))"
  by (cases v)
     (auto simp: is_variant_def variant_size_def js_get_def js_or_def split: option.splits jsval.splits)

text \<open>
  Claim C2, as amended. For every non-empty list of photo variants (objects whose
  \<open>file_size\<close> is an integer or absent), the variant that provides the file identifier
  and the file size has the largest reported size, and among the variants of that size it
  is the last one: the strict comparison keeps the later element on equal size.
\<close>

theorem largest_variant_last_wins:
  assumes "truthy result" and "get_prop result ''photo'' = Inr (JArr photo)"
    and "photo \<noteq> []" and "list_all is_variant photo"
  shows "\<exists>i<length photo.
           getFileIdFromPhoto P result = get_prop (photo ! i) ''file_id''
         \<and> getFileSizeFromPhoto P result = Inr (JNum (variant_size (photo ! i)))
         \<and> (\<forall>j<length photo. variant_size (photo ! j) \<le> variant_size (photo ! i))
         \<and> (\<forall>j<length photo. i < j \<longrightarrow> variant_size (photo ! j) < variant_size (photo ! i))"
proof -
  from assms(3) obtain a xs where photo: "photo = a # xs" by (cases photo) auto
  with assms(4) have va: "is_variant a" and vxs: "list_all is_variant xs" by simp_all
  let ?f = "\<lambda>prev cur. if variant_size cur < variant_size prev then prev else cur"
  have lv: "largest_variant P result = Some (Inr (foldl ?f a xs))"
    using assms(1,2) photo reduce_from_variants[OF vxs va, of P]
    by (simp add: largest_variant_def js_get_def js_reduce_def)
  from foldl_last_largest[where sz=variant_size and a=a and xs=xs] obtain i where i: "i < length photo"
    and sel: "foldl ?f a xs = photo ! i"
    and le: "\<forall>j<length photo. variant_size (photo ! j) \<le> variant_size (photo ! i)"
    and lt: "\<forall>j<length photo. i < j \<longrightarrow> variant_size (photo ! j) < variant_size (photo ! i)"
    unfolding photo by blast
  have vi: "is_variant (photo ! i)"
    using assms(4) i by (simp add: list_all_length)
  have "getFileIdFromPhoto P result = get_prop (photo ! i) ''file_id''"
    by (simp add: getFileIdFromPhoto_largest lv sel)
  moreover have "getFileSizeFromPhoto P result = Inr (JNum (variant_size (photo ! i)))"
    by (simp add: getFileSizeFromPhoto_largest lv sel variant_file_size[OF vi])
  ultimately show ?thesis using i le lt by blast
qed

text \<open>On the sizes 100, 300 and 300 of the claim the second variant of size 300 is
  selected, not the first.\<close>

theorem largest_variant_tie_counterexample:
  "getFileIdFromPhoto example_platform example_result = Inr (JStr ''second300'')
   \<and> getFileIdFromPhoto example_platform example_result \<noteq> Inr (JStr ''first300'')"
  by (simp add: getFileIdFromPhoto_def example_result_def example_variants_def js_reduce_def
      js_gt_def js_or_def)

text \<open>The theorem on the variants of sizes 100, 300 and 300.\<close>

theorem largest_variant_last_wins_witness:
  "\<exists>i<length example_variants.
      getFileIdFromPhoto example_platform example_result = get_prop (example_variants ! i) ''file_id''
    \<and> getFileSizeFromPhoto example_platform example_result = Inr (JNum (variant_size (example_variants ! i)))
    \<and> (\<forall>j<length example_variants. variant_size (example_variants ! j) \<le> variant_size (example_variants ! i))
    \<and> (\<forall>j<length example_variants. i < j \<longrightarrow> variant_size (example_variants ! j) < variant_size (example_variants ! i))"
proof -
  have "truthy example_result" "get_prop example_result ''photo'' = Inr (JArr example_variants)"
    "example_variants \<noteq> []" "list_all is_variant example_variants"
    by (simp_all add: example_result_def example_variants_def is_variant_def)
  from largest_variant_last_wins[OF this] show ?thesis .
qed

text \<open>What a successful \<open>processOne\<close> stores.\<close>

lemma processOne_stored_size:
  assumes "processOne P item env baseUrl w s = (Inr r, s')"
    and "get_prop r ''success'' = Inr (JBool True)"
    and "img_url s = Some kv"
  shows "\<exists>data v u fid kv' entry. fetch_outcome w = JsonData data
           \<and> largest_variant P (js_get data ''result'') = Some (Inr v)
           \<and> get_prop item ''url'' = Inr (JStr u)
           \<and> js_String P (js_get v ''file_id'') = Inr fid
           \<and> img_url s' = Some kv'
           \<and> kv' (fid @ ''.'' @ getExtensionFromUrl P u) = Some entry
           \<and> js_get (entry_metadata entry) ''fileSize'' = js_or (js_get v ''file_size'') (JNum 0)"
  using assms unfolding processOne_def failure_def Let_def getFileIdFromPhoto_largest getFileSizeFromPhoto_largest
  apply (simp split: sum.splits jsval.splits if_splits option.splits fetch_outcome.splits)
  apply (auto simp: js_get_def)
  done

text \<open>
  Claim C9. For every result object, \<open>getFileIdFromPhoto\<close> and
  \<open>getFileSizeFromPhoto\<close> go through the same reduction of the same photo list: one
  gives the \<open>file_id\<close> and the other the \<open>file_size\<close> (0 when missing) of the same
  variant, an element of the list, and both throw when the reduction throws. So when
  \<open>processOne\<close> succeeds with a namespace configured, the record stored under the key
  made of that variant's \<open>file_id\<close> and the extension carries that variant's
  \<open>file_size\<close> as \<open>fileSize\<close>.
\<close>

theorem photo_functions_same_variant:
  "getFileIdFromPhoto P result =
     (case largest_variant P result of
        None \<Rightarrow> Inr JNull
      | Some (Inl e) \<Rightarrow> Inl e
      | Some (Inr v) \<Rightarrow> get_prop v ''file_id'')
   \<and> getFileSizeFromPhoto P result =
     (case largest_variant P result of
        None \<Rightarrow> Inr (JNum 0)
      | Some (Inl e) \<Rightarrow> Inl e
      | Some (Inr v) \<Rightarrow>
          (case get_prop v ''file_size'' of Inl e \<Rightarrow> Inl e | Inr fs \<Rightarrow> Inr (js_or fs (JNum 0))))
   \<and> (\<forall>v. largest_variant P result = Some (Inr v) \<longrightarrow>
          (\<exists>photo. js_get result ''photo'' = JArr photo \<and> v \<in> set photo))
   \<and> (processOne P item env baseUrl w s = (Inr r, s') \<and> get_prop r ''success'' = Inr (JBool True)
        \<and> img_url s = Some kv \<longrightarrow>
       (\<exists>data v u fid kv' entry. fetch_outcome w = JsonData data
           \<and> largest_variant P (js_get data ''result'') = Some (Inr v)
           \<and> get_prop item ''url'' = Inr (JStr u)
           \<and> js_String P (js_get v ''file_id'') = Inr fid
           \<and> img_url s' = Some kv'
           \<and> kv' (fid @ ''.'' @ getExtensionFromUrl P u) = Some entry
           \<and> js_get (entry_metadata entry) ''fileSize'' = js_or (js_get v ''file_size'') (JNum 0)))"
  using getFileIdFromPhoto_largest[of P result] getFileSizeFromPhoto_largest[of P result]
    largest_variant_member[of P result] processOne_stored_size[of P item env baseUrl w s r s' kv]
  by blast

text \<open>On the example result both functions read the third variant.\<close>

theorem photo_functions_same_variant_witness:
  "largest_variant example_platform example_result = Some (Inr (example_variants ! 2))
   \<and> getFileIdFromPhoto example_platform example_result = Inr (JStr ''second300'')
   \<and> getFileSizeFromPhoto example_platform example_result = Inr (JNum 300)"
proof -
  have lv: "largest_variant example_platform example_result = Some (Inr (example_variants ! 2))"
    by (simp add: largest_variant_def example_result_def example_variants_def js_get_def
        js_reduce_def pick_larger_def js_gt_def js_or_def)
  show ?thesis
    using photo_functions_same_variant[of example_platform example_result]
    by (simp add: lv) (simp add: example_variants_def js_or_def)
qed

section \<open>Properties of the ingestion of one item\<close>

text \<open>
  Claim C7. Whenever \<open>processOne\<close> returns a result with \<open>success\<close> false, whatever
  the cause, the namespace is as it was before the call: no record was written for the
  item.
\<close>

theorem processOne_failure_no_write:
  assumes "processOne P item env baseUrl w s = (Inr r, s')"
    and "get_prop r ''success'' = Inr (JBool False)"
  shows "img_url s' = img_url s"
  using assms unfolding processOne_def failure_def Let_def
  by (auto split: sum.splits jsval.splits if_splits option.splits fetch_outcome.splits)

text \<open>The item \<open>{url:"not-a-url"}\<close> that the Bot API rejects: a failure with the API's
  description as its error, and the namespace untouched.\<close>

theorem processOne_failure_no_write_witness:
  "processOne example_platform (JObj [(''url'', JStr ''not-a-url'')]) example_env
     ''https://img.example'' api_rejects example_sys
   = (Inr (failure (JStr ''not-a-url'') (JStr ''Bad Request: wrong HTTP URL specified'')),
      example_sys\<lparr>sent := [\<lparr>tg_api_url = ''https://api.telegram.org/bot123:abc/sendPhoto'',
                              tg_chat_id = ''42'', tg_photo = ''not-a-url'', tg_caption = []\<rparr>]\<rparr>)
   \<and> img_url (snd (processOne example_platform (JObj [(''url'', JStr ''not-a-url'')]) example_env
     ''https://img.example'' api_rejects example_sys)) = img_url example_sys"
proof -
  have run: "processOne example_platform (JObj [(''url'', JStr ''not-a-url'')]) example_env
     ''https://img.example'' api_rejects example_sys
   = (Inr (failure (JStr ''not-a-url'') (JStr ''Bad Request: wrong HTTP URL specified'')),
      example_sys\<lparr>sent := [\<lparr>tg_api_url = ''https://api.telegram.org/bot123:abc/sendPhoto'',
                              tg_chat_id = ''42'', tg_photo = ''not-a-url'', tg_caption = []\<rparr>]\<rparr>)"
    by (simp add: processOne_def example_env_def api_rejects_def example_sys_def env_String_def
        js_trim_def is_space_def code_unit_def js_or_def)
  have "get_prop (failure (JStr ''not-a-url'') (JStr ''Bad Request: wrong HTTP URL specified'')) ''success''
        = Inr (JBool False)"
    by (simp add: failure_def)
  from processOne_failure_no_write[OF run this] run show ?thesis by simp
qed

text \<open>Every failure that \<open>processOne\<close> returns carries a truthy \<open>error\<close>.\<close>

lemma processOne_failure_error:
  assumes "processOne P item env baseUrl w s = (Inr r, s')"
    and "get_prop r ''success'' = Inr (JBool False)"
  shows "truthy (js_get r ''error'')"
  using assms unfolding processOne_def failure_def Let_def
  by (auto simp: js_get_def js_or_def
      split: sum.splits jsval.splits if_splits option.splits fetch_outcome.splits)

text \<open>
  Claim C1 says that \<open>processOne\<close> never throws, also for an item that is \<open>null\<close> or
  \<open>undefined\<close> and when the \<open>put\<close> of the namespace fails. The code throws there:
  destructuring a \<open>null\<close> or \<open>undefined\<close> item is a TypeError before any check, and
  nothing catches a rejected \<open>put\<close>; reading \<open>data.ok\<close> of a reply whose JSON is
  \<open>null\<close> throws as well.
\<close>

theorem processOne_throws:
  "processOne P JNull env baseUrl w s = (Inl (TypeError ''Cannot read properties of null''), s)
   \<and> processOne P JUndef env baseUrl w s = (Inl (TypeError ''Cannot read properties of undefined''), s)
   \<and> fst (processOne P (JObj [(''url'', JStr ''https://x.com/pic.PNG?x=1'')]) env baseUrl
            put_fails example_sys) = Inl (Rejection ''KV PUT failed'')
   \<and> fst (processOne P (JObj [(''url'', JStr ''https://x.com/pic.PNG?x=1'')]) env baseUrl
            (api_accepts\<lparr>fetch_outcome := JsonData JNull\<rparr>) s)
       = Inl (TypeError ''Cannot read properties of null'')"
proof -
  have id: "getFileIdFromPhoto P example_result = Inr (JStr ''second300'')"
    by (simp add: getFileIdFromPhoto_def example_result_def example_variants_def js_reduce_def
      js_gt_def js_or_def)
  have sz: "getFileSizeFromPhoto P example_result = Inr (JNum 300)"
    by (simp add: getFileSizeFromPhoto_def example_result_def example_variants_def js_reduce_def
      js_gt_def js_or_def)
  have mid: "get_prop example_result ''message_id'' = Inr (JNum 7)" "truthy example_result"
    by (simp_all add: example_result_def)
  have "fst (processOne P (JObj [(''url'', JStr ''https://x.com/pic.PNG?x=1'')]) env baseUrl
            put_fails example_sys) = Inl (Rejection ''KV PUT failed'')"
    by (simp add: processOne_def put_fails_def api_accepts_def example_sys_def id sz mid Let_def)
  then show ?thesis
    by (simp add: processOne_def api_accepts_def)
qed

text \<open>The throws in the example set-up.\<close>

theorem processOne_throws_witness:
  "processOne example_platform JNull example_env ''https://img.example'' api_accepts example_sys
     = (Inl (TypeError ''Cannot read properties of null''), example_sys)
   \<and> processOne example_platform (JObj [(''url'', JStr ''https://x.com/pic.PNG?x=1'')]) example_env
        ''https://img.example'' put_fails example_sys
     = (Inl (Rejection ''KV PUT failed''),
        example_sys\<lparr>sent := [\<lparr>tg_api_url = ''https://api.telegram.org/bot123:abc/sendPhoto'',
                              tg_chat_id = ''42'', tg_photo = ''https://x.com/pic.PNG?x=1'', tg_caption = []\<rparr>]\<rparr>)"
proof -
  have id: "getFileIdFromPhoto example_platform example_result = Inr (JStr ''second300'')"
    by (simp add: getFileIdFromPhoto_def example_result_def example_variants_def js_reduce_def
      js_gt_def js_or_def)
  have sz: "getFileSizeFromPhoto example_platform example_result = Inr (JNum 300)"
    by (simp add: getFileSizeFromPhoto_def example_result_def example_variants_def js_reduce_def
      js_gt_def js_or_def)
  have mid: "get_prop example_result ''message_id'' = Inr (JNum 7)" "truthy example_result"
    by (simp_all add: example_result_def)
  have "snd (processOne example_platform (JObj [(''url'', JStr ''https://x.com/pic.PNG?x=1'')]) example_env
        ''https://img.example'' put_fails example_sys)
     = example_sys\<lparr>sent := [\<lparr>tg_api_url = ''https://api.telegram.org/bot123:abc/sendPhoto'',
                              tg_chat_id = ''42'', tg_photo = ''https://x.com/pic.PNG?x=1'', tg_caption = []\<rparr>]\<rparr>"
    by (simp add: processOne_def put_fails_def api_accepts_def example_sys_def example_env_def id sz mid Let_def
        env_String_def js_trim_def is_space_def code_unit_def)
  with processOne_throws[of example_platform example_env "''https://img.example''" api_accepts example_sys]
  show ?thesis by (simp add: prod_eq_iff)
qed


section \<open>Properties of the authenticator\<close>

lemma getPassword_presented: "getPassword req = presented_credential req"
  by (auto simp: getPassword_def presented_credential_def bearer_token_def split: option.splits)

lemma checkAuth_granted:
  "checkAuth req env = access_granted (BASIC_PASS env) (presented_credential req)"
  by (auto simp: checkAuth_def access_granted_def getPassword_presented)

lemma err_401_not_other:
  "errResponse c m 500 \<noteq> errResponse c' m' 401"
  "errResponse c m 400 \<noteq> errResponse c' m' 401"
  "jsonResponse c b 200 \<noteq> errResponse c' m' 401"
  by (simp_all add: errResponse_def jsonResponse_def)

lemma onRequestPost_unauthorized:
  "(fst (onRequestPost P req env ws s) = Inr (errResponse UPLOAD_CORS_HEADERS ''Unauthorized'' 401))
   = (\<not> checkAuth req env)"
  unfolding onRequestPost_def
  by (auto simp: err_401_not_other split: option.splits sum.splits jsval.splits prod.splits)

lemma onRequestPost_unauthorized_state:
  "\<not> checkAuth req env \<Longrightarrow> snd (onRequestPost P req env ws s) = s"
  by (simp add: onRequestPost_def)

lemma onRequestGet_unauthorized:
  "(onRequestGet P req env = Some (errResponse LIST_CORS_HEADERS ''Unauthorized'' 401))
   = (\<not> access_granted (LIST_BASIC_PASS env) (pwd_param req))"
  unfolding onRequestGet_def access_granted_def list_error_def
  by (auto simp: err_401_not_other split: option.splits sum.splits)

text \<open>
  Claim C3. For every configured secret and every request, the ingestion handler and the
  listing handler answer 401 Unauthorized exactly when access is not granted, and access
  is granted if and only if the secret is absent or empty or the presented credential
  equals it. For ingestion the presented credential, which is what \<open>getPassword\<close>
  returns, is a non-empty \<open>pwd\<close> query parameter if there is one, else the value of
  the Authorization header with the \<open>Bearer\<close> prefix stripped and trimmed; for listing
  it is the \<open>pwd\<close> query parameter. An unauthorized ingestion request leaves the state
  as it was: nothing is sent to the Bot API and nothing is written.
\<close>

theorem access_iff_secret_matches:
  "(fst (onRequestPost P req env ws s) = Inr (errResponse UPLOAD_CORS_HEADERS ''Unauthorized'' 401))
     = (\<not> access_granted (BASIC_PASS env) (presented_credential req))
   \<and> (\<not> access_granted (BASIC_PASS env) (presented_credential req) \<longrightarrow>
        snd (onRequestPost P req env ws s) = s)
   \<and> getPassword req = presented_credential req
   \<and> (onRequestGet P req lenv = Some (errResponse LIST_CORS_HEADERS ''Unauthorized'' 401))
     = (\<not> access_granted (LIST_BASIC_PASS lenv) (pwd_param req))"
  using onRequestPost_unauthorized[of P req env ws s] onRequestPost_unauthorized_state[of req env P ws s]
    onRequestGet_unauthorized[of P req lenv]
  by (simp add: checkAuth_granted getPassword_presented)

text \<open>A wrong password is refused by both handlers; the right one is not refused.\<close>

theorem access_iff_secret_matches_witness:
  "fst (onRequestPost example_platform wrong_password example_env (\<lambda>i. api_accepts) example_sys)
     = Inr (errResponse UPLOAD_CORS_HEADERS ''Unauthorized'' 401)
   \<and> snd (onRequestPost example_platform wrong_password example_env (\<lambda>i. api_accepts) example_sys)
     = example_sys
   \<and> onRequestGet example_platform wrong_password example_list_env
     = Some (errResponse LIST_CORS_HEADERS ''Unauthorized'' 401)
   \<and> onRequestGet example_platform (wrong_password\<lparr>pwd_param := Some ''secret''\<rparr>) example_list_env
     \<noteq> Some (errResponse LIST_CORS_HEADERS ''Unauthorized'' 401)"
proof -
  have a: "\<not> access_granted (BASIC_PASS example_env) (presented_credential wrong_password)"
    "\<not> access_granted (LIST_BASIC_PASS example_list_env) (pwd_param wrong_password)"
    "access_granted (LIST_BASIC_PASS example_list_env) (pwd_param (wrong_password\<lparr>pwd_param := Some ''secret''\<rparr>))"
    by (simp_all add: access_granted_def example_env_def example_list_env_def wrong_password_def
        presented_credential_def)
  show ?thesis
    using access_iff_secret_matches[of example_platform wrong_password example_env "\<lambda>i. api_accepts"
        example_sys example_list_env]
      access_iff_secret_matches[of example_platform "wrong_password\<lparr>pwd_param := Some ''secret''\<rparr>"
        example_env "\<lambda>i. api_accepts" example_sys example_list_env]
      a
    by simp
qed

section \<open>Properties of the pagination walker\<close>

lemma listAllKeys_loop_pages:
  assumes "serves_pages kv LIST_PAGE_SIZE c pages"
  shows "listAllKeys_loop kv ks c = Some (Inr (ks @ concat pages))"
  using assms
proof (induction pages arbitrary: ks c)
  case Nil
  then show ?case by simp
next
  case (Cons p ps)
  show ?case
  proof (cases ps)
    case Nil
    with Cons.prems show ?thesis
      by (subst listAllKeys_loop.simps) (auto simp: cursor_truthy_def split: sum.splits)
  next
    case (Cons q qs)
    with Cons.prems obtain r where r: "kv_list kv LIST_PAGE_SIZE c = Inr r" "keys r = p"
      "\<not> list_complete r" "cursor_truthy (cursor r)" "serves_pages kv LIST_PAGE_SIZE (cursor r) ps"
      by (auto split: sum.splits)
    from Cons.IH[OF r(5), of "ks @ p"] r(1-4) show ?thesis
      by (subst listAllKeys_loop.simps) simp
  qed
qed

text \<open>
  Claim C6. For every namespace that serves its keys in pages, however many and wherever
  the page boundaries fall (each call returns at most the page size, with either the
  completion signal or a cursor to the next page), \<open>listAllKeys\<close> called with no
  starting cursor terminates and returns exactly the key names of all the pages, in the
  order the namespace enumerates them.
\<close>

theorem listAllKeys_all_pages:
  assumes "serves_pages kv LIST_PAGE_SIZE None pages"
  shows "listAllKeys kv None = Some (Inr (concat pages))"
  using listAllKeys_loop_pages[OF assms, of "[]"] by (simp add: listAllKeys_def)

text \<open>Three keys in two pages.\<close>

theorem listAllKeys_all_pages_witness:
  "serves_pages example_namespace LIST_PAGE_SIZE None [[''a.png'', ''b.png''], [''c.png'']]
   \<and> listAllKeys example_namespace None = Some (Inr [''a.png'', ''b.png'', ''c.png''])"
proof -
  have s: "serves_pages example_namespace LIST_PAGE_SIZE None [[''a.png'', ''b.png''], [''c.png'']]"
    by (simp add: example_namespace_def LIST_PAGE_SIZE_def cursor_truthy_def)
  from listAllKeys_all_pages[OF s] s show ?thesis by simp
qed

end
